theory Spec2Isabelle
  imports Main "HOL-Library.Sublist"
begin

section \<open>Values, exceptions and the platform\<close>

text \<open>
  The service of \<^verbatim>\<open>src/services/sseService.js\<close> is a class with mutable fields, run
  by the browser's event loop. The embedding passes the object's state explicitly. A
  JavaScript exception is a value: an operation yields \<open>Returns s\<close> when it completes in
  state \<open>s\<close> and \<open>Throws e s\<close> when it raises \<open>e\<close>, the mutations made before the raise
  being kept in \<open>s\<close>.
\<close>

datatype json =
    JNull
  | JBool bool
  | JNumber int
  | JString string
  | JArray "json list"
  | JObject "(string \<times> json) list"

datatype js_error = TypeError | SyntaxError | Thrown nat

type_synonym callback = nat
  \<comment> \<open>a JavaScript function, known by its identity (\<^verbatim>\<open>indexOf\<close> compares references)\<close>

datatype effect =
    ConsoleLog string
  | ConsoleError string
  | Called callback json
  | NewEventSource nat
  | CloseEventSource nat
  | RefreshCalled callback
  | Uncaught js_error

datatype 's outcome = Returns 's | Throws js_error 's

definition and_then :: "'s outcome \<Rightarrow> ('s \<Rightarrow> 's outcome) \<Rightarrow> 's outcome" where
  "and_then m f = (case m of Returns s \<Rightarrow> f s | Throws e s \<Rightarrow> Throws e s)"

definition try_catch :: "'s outcome \<Rightarrow> (js_error \<Rightarrow> 's \<Rightarrow> 's outcome) \<Rightarrow> 's outcome" where
  "try_catch m h = (case m of Returns s \<Rightarrow> Returns s | Throws e s \<Rightarrow> h e s)"

definition state_of :: "'s outcome \<Rightarrow> 's" where
  "state_of m = (case m of Returns s \<Rightarrow> s | Throws e s \<Rightarrow> s)"

text \<open>
  What the file takes from outside itself: the constant \<^verbatim>\<open>API_BASE_URL\<close> imported from
  \<^verbatim>\<open>../api.js\<close>, the builtin \<^verbatim>\<open>JSON.parse\<close> (\<open>None\<close> where it raises SyntaxError), and
  the behaviour of the application's callbacks: \<open>cb_throws P f d\<close> says that the function
  \<open>f\<close> raises when called with \<open>d\<close>, and \<open>hook_raises P f\<close> that the token-refresh hook
  \<open>f\<close> raises in the call itself, before it has returned a promise (a hook declared
  \<^verbatim>\<open>async\<close> never does). A callback is opaque: it returns or raises, and does not call
  back into the service while it runs.
\<close>

record platform =
  API_BASE_URL :: string
  JSON_parse :: "string \<Rightarrow> json option"
  cb_throws :: "callback \<Rightarrow> json \<Rightarrow> bool"
  hook_raises :: "callback \<Rightarrow> bool"

section \<open>The service object\<close>

text \<open>
  An \<^verbatim>\<open>EventSource\<close> object: its URL and options, its \<^verbatim>\<open>readyState\<close> (0 CONNECTING,
  1 OPEN, 2 CLOSED), the \<^verbatim>\<open>token\<close> captured by the closures that \<^verbatim>\<open>connect\<close> installs on
  it, and the event types registered on it with \<^verbatim>\<open>addEventListener\<close>, in order.
\<close>

record event_source =
  url :: string
  withCredentials :: bool
  readyState :: nat
  closure_token :: string
  event_types :: "string list"

text \<open>
  The fields of \<^verbatim>\<open>SSEService\<close>, followed by the part of the browser the object acts on:
  the \<^verbatim>\<open>EventSource\<close> objects created so far (\<open>eventSource\<close> refers to one by its index),
  the timers set with \<^verbatim>\<open>setTimeout\<close> and not yet fired (delay and captured token), the
  \<^verbatim>\<open>onerror\<close> invocations suspended at their \<^verbatim>\<open>await\<close> (captured token), and the trace of
  observable effects. A token is a string; the empty string stands for every falsy token
  (\<^verbatim>\<open>''\<close>, \<^verbatim>\<open>null\<close>, \<^verbatim>\<open>undefined\<close>).
\<close>

record sse_service =
  eventSource :: "nat option"
  reconnectAttempts :: nat
  maxReconnectAttempts :: nat
  reconnectDelay :: nat
  listeners :: "string \<rightharpoonup> callback list"
  isConnected :: bool
  shouldReconnect :: bool
  connectionListeners :: "callback list"
  lastToken :: "string option"
  tokenRefreshCallback :: "callback option"
  heap :: "event_source list"
  timers :: "(nat \<times> string) list"
  awaiting :: "string list"
  trace :: "effect list"

definition constructor :: sse_service where
  "constructor =
     \<lparr>eventSource = None, reconnectAttempts = 0, maxReconnectAttempts = 5,
      reconnectDelay = 1000, listeners = Map.empty, isConnected = False,
      shouldReconnect = True, connectionListeners = [], lastToken = None,
      tokenRefreshCallback = None, heap = [], timers = [], awaiting = [], trace = []\<rparr>"

definition setTokenRefreshCallback :: "callback option \<Rightarrow> sse_service \<Rightarrow> sse_service" where
  "setTokenRefreshCallback callback s = s\<lparr>tokenRefreshCallback := callback\<rparr>"

definition effect_add :: "effect \<Rightarrow> sse_service \<Rightarrow> sse_service" where
  "effect_add e s = s\<lparr>trace := trace s @ [e]\<rparr>"

section \<open>Listener registry\<close>

text \<open>\<^verbatim>\<open>Array.prototype.indexOf\<close>: the first index holding the element, or -1.\<close>

fun indexOf :: "'a list \<Rightarrow> 'a \<Rightarrow> int" where
  "indexOf [] x = -1"
| "indexOf (y # ys) x =
     (if y = x then 0 else (let i = indexOf ys x in if i = -1 then -1 else i + 1))"

text \<open>\<^verbatim>\<open>callbacks.splice(index, 1)\<close> for an index that is not negative.\<close>

definition splice1 :: "int \<Rightarrow> 'a list \<Rightarrow> 'a list" where
  "splice1 i xs = take (nat i) xs @ drop (nat i + 1) xs"

text \<open>Calling a callback: the call is observed, then the function returns or raises.\<close>

definition call :: "platform \<Rightarrow> callback \<Rightarrow> json \<Rightarrow> sse_service \<Rightarrow> sse_service outcome" where
  "call P f d s =
     (if cb_throws P f d then Throws (Thrown f) (effect_add (Called f d) s)
      else Returns (effect_add (Called f d) s))"

text \<open>\<^verbatim>\<open>Array.prototype.forEach\<close>: an exception of the body ends the iteration.\<close>

fun forEach :: "('a \<Rightarrow> 's \<Rightarrow> 's outcome) \<Rightarrow> 'a list \<Rightarrow> 's \<Rightarrow> 's outcome" where
  "forEach body [] s = Returns s"
| "forEach body (x # xs) s = and_then (body x s) (forEach body xs)"

definition on :: "string \<Rightarrow> callback \<Rightarrow> sse_service \<Rightarrow> sse_service" where
  "on event callback s =
     (let s1 = (if listeners s event = None
                then s\<lparr>listeners := (listeners s)(event \<mapsto> [])\<rparr> else s)
      in s1\<lparr>listeners := (listeners s1)(event \<mapsto> the (listeners s1 event) @ [callback])\<rparr>)"

definition off :: "string \<Rightarrow> callback \<Rightarrow> sse_service \<Rightarrow> sse_service" where
  "off event callback s =
     (case listeners s event of
        None \<Rightarrow> s
      | Some callbacks \<Rightarrow>
          (let index = indexOf callbacks callback
           in if index > -1
              then s\<lparr>listeners := (listeners s)(event \<mapsto> splice1 index callbacks)\<rparr>
              else s))"

definition emit :: "platform \<Rightarrow> string \<Rightarrow> json \<Rightarrow> sse_service \<Rightarrow> sse_service outcome" where
  "emit P event data s =
     (case listeners s event of
        None \<Rightarrow> Returns s
      | Some callbacks \<Rightarrow>
          forEach (\<lambda>callback s'. try_catch (call P callback data s') (\<lambda>error s''. Returns s''))
            callbacks s)"

definition onConnectionChange :: "callback \<Rightarrow> sse_service \<Rightarrow> sse_service" where
  "onConnectionChange callback s = s\<lparr>connectionListeners := connectionListeners s @ [callback]\<rparr>"

definition offConnectionChange :: "callback \<Rightarrow> sse_service \<Rightarrow> sse_service" where
  "offConnectionChange callback s =
     (let index = indexOf (connectionListeners s) callback
      in if index > -1
         then s\<lparr>connectionListeners := splice1 index (connectionListeners s)\<rparr>
         else s)"

definition notifyConnectionListeners :: "platform \<Rightarrow> string \<Rightarrow> sse_service \<Rightarrow> sse_service outcome" where
  "notifyConnectionListeners P status s =
     forEach (\<lambda>callback s'. try_catch (call P callback (JString status) s') (\<lambda>error s''. Returns s''))
       (connectionListeners s) s"

section \<open>Stream session\<close>

text \<open>
  \<^verbatim>\<open>encodeURIComponent\<close> on a string held as its UTF-8 bytes: the unreserved characters
  stay, every other byte becomes \<^verbatim>\<open>%XX\<close>. (A string of bytes has no lone surrogate, the
  one input on which the builtin raises.)
\<close>

definition unreserved :: "char list" where
  "unreserved =
     ''ABCDEFGHIJKLMNOPQRSTUVWXYZabcdefghijklmnopqrstuvwxyz0123456789-_.!~*()'' @ [CHR 0x27]"

definition hex_digit :: "nat \<Rightarrow> char" where
  "hex_digit n = ''0123456789ABCDEF'' ! (n mod 16)"

definition encodeURIComponent :: "string \<Rightarrow> string" where
  "encodeURIComponent str =
     concat (map (\<lambda>c. if c \<in> set unreserved then [c]
                       else [CHR ''%'', hex_digit (of_char c div 16), hex_digit (of_char c mod 16)])
               str)"

text \<open>\<^verbatim>\<open>String.prototype.includes\<close>.\<close>

fun includes_str :: "string \<Rightarrow> string \<Rightarrow> bool" where
  "includes_str [] sub = (sub = [])"
| "includes_str (c # cs) sub = (prefix sub (c # cs) \<or> includes_str cs sub)"

text \<open>The URL of lines 34 to 39 of \<^verbatim>\<open>connect\<close>.\<close>

definition stream_url :: "platform \<Rightarrow> string \<Rightarrow> string" where
  "stream_url P token =
     (let url = API_BASE_URL P @ ''/api/sse-simple/?token='' @ encodeURIComponent token
      in if includes_str (API_BASE_URL P) ''ngrok''
         then url @ ''&ngrok-skip-browser-warning=true'' else url)"

text \<open>\<^verbatim>\<open>EventSource.prototype.close\<close> on the object at index \<open>h\<close>.\<close>

definition close :: "nat \<Rightarrow> sse_service \<Rightarrow> sse_service" where
  "close h s =
     effect_add (CloseEventSource h) (s\<lparr>heap := (heap s)[h := (heap s ! h)\<lparr>readyState := 2\<rparr>]\<rparr>)"

definition disconnect :: "platform \<Rightarrow> sse_service \<Rightarrow> sse_service outcome" where
  "disconnect P s =
     (let s1 = s\<lparr>shouldReconnect := False\<rparr>;
          s2 = (case eventSource s1 of
                  Some h \<Rightarrow> (close h s1)\<lparr>eventSource := None\<rparr>
                | None \<Rightarrow> s1);
          s3 = s2\<lparr>isConnected := False\<rparr>
      in notifyConnectionListeners P ''disconnected'' s3)"

definition addEventListener :: "string \<Rightarrow> sse_service \<Rightarrow> sse_service" where
  "addEventListener eventType s =
     (case eventSource s of
        Some h \<Rightarrow> s\<lparr>heap := (heap s)[h := (heap s ! h)
                        \<lparr>event_types := event_types (heap s ! h) @ [eventType]\<rparr>]\<rparr>
      | None \<Rightarrow> s)"

text \<open>The event types of lines 97 to 193, in the order of their registration.\<close>

definition named_events :: "string list" where
  "named_events =
     [''connected'', ''heartbeat'', ''session_update'', ''session_invitation'',
      ''session_invitation_accepted'', ''session_invitation_rejected'',
      ''relationship_invitation'', ''notification'', ''session_deleted'', ''sessions_update'',
      ''objective_advancement'', ''session_status_change'', ''vote_update'',
      ''objective_transition'', ''session_completion'', ''end_session_vote_update'',
      ''session_summary_generated'', ''session_summary_generating'', ''session_summary_error'',
      ''objective_completion'']"

text \<open>
  \<^verbatim>\<open>connect\<close> is declared \<^verbatim>\<open>async\<close> and has no \<^verbatim>\<open>await\<close>: its body runs to its end
  when it is called. The three handler closures it assigns are the functions \<open>onopen\<close>,
  \<open>onmessage\<close> and \<open>onerror\<close> below; the new object records the token they capture.
  The constructor \<^verbatim>\<open>new EventSource\<close> is taken to succeed, the URL being well formed.
\<close>

definition connect :: "platform \<Rightarrow> string \<Rightarrow> sse_service \<Rightarrow> sse_service outcome" where
  "connect P token s =
     and_then (if eventSource s \<noteq> None then disconnect P s else Returns s)
       (\<lambda>s1. if token = []
              then Returns (effect_add (ConsoleError ''SSE: No token provided'') s1)
              else
                (let s2 = s1\<lparr>lastToken := Some token\<rparr>;
                     url = stream_url P token;
                     s3 = effect_add (ConsoleLog ''SSE: Connecting to:'') s2;
                     h = length (heap s3);
                     s4 = effect_add (NewEventSource h)
                            (s3\<lparr>heap := heap s3 @
                                   [\<lparr>url = url, withCredentials = True, readyState = 0,
                                     closure_token = token, event_types = []\<rparr>],
                                 eventSource := Some h\<rparr>)
                 in Returns (fold addEventListener named_events s4)))"

definition onopen :: "platform \<Rightarrow> sse_service \<Rightarrow> sse_service outcome" where
  "onopen P s =
     and_then
       (emit P ''connected'' (JObject [(''status'', JString ''connected'')])
          (s\<lparr>isConnected := True, reconnectAttempts := 0\<rparr>))
       (notifyConnectionListeners P ''connected'')"

definition onmessage :: "platform \<Rightarrow> string \<Rightarrow> sse_service \<Rightarrow> sse_service outcome" where
  "onmessage P event_data s =
     try_catch
       (case JSON_parse P event_data of
          None \<Rightarrow> Throws SyntaxError s
        | Some data \<Rightarrow> emit P ''message'' data s)
       (\<lambda>error s'. Returns s')"

text \<open>
  The listener that \<^verbatim>\<open>connect\<close> registers for a named event type: nothing for
  \<^verbatim>\<open>heartbeat\<close>, a parse alone for \<^verbatim>\<open>connected\<close>, a parse and an \<^verbatim>\<open>emit\<close> under the
  same name for the others. None of them has a \<^verbatim>\<open>try\<close>.
\<close>

definition named_listener :: "platform \<Rightarrow> string \<Rightarrow> string \<Rightarrow> sse_service \<Rightarrow> sse_service outcome" where
  "named_listener P eventType event_data s =
     (if eventType = ''heartbeat'' then Returns s
      else
        (case JSON_parse P event_data of
           None \<Rightarrow> Throws SyntaxError s
         | Some data \<Rightarrow> if eventType = ''connected'' then Returns s else emit P eventType data s))"

section \<open>Reconnection policy\<close>

definition handleReconnect :: "platform \<Rightarrow> string \<Rightarrow> sse_service \<Rightarrow> sse_service outcome" where
  "handleReconnect P token s =
     (if reconnectAttempts s < maxReconnectAttempts s
      then
        (let s1 = s\<lparr>reconnectAttempts := reconnectAttempts s + 1\<rparr>
         in Returns (s1\<lparr>timers := timers s1 @ [(reconnectDelay s1 * reconnectAttempts s1, token)]\<rparr>))
      else emit P ''connection_failed''
             (JObject [(''error'', JString ''Max reconnection attempts reached'')]) s)"

text \<open>
  The object that \<^verbatim>\<open>handleReconnect\<close> emits with \<^verbatim>\<open>connection_failed\<close>.
\<close>

definition connection_failed_data :: json where
  "connection_failed_data = JObject [(''error'', JString ''Max reconnection attempts reached'')]"

text \<open>
  The function given to \<^verbatim>\<open>setTimeout\<close>. The promise of \<^verbatim>\<open>connect\<close> is dropped, so
  nothing it raised would reach the caller.
\<close>

definition retry_callback :: "platform \<Rightarrow> string \<Rightarrow> sse_service \<Rightarrow> sse_service outcome" where
  "retry_callback P token s =
     (if shouldReconnect s then Returns (state_of (connect P token s)) else Returns s)"

text \<open>
  \<^verbatim>\<open>onerror\<close> is \<^verbatim>\<open>async\<close>: it runs up to its \<^verbatim>\<open>await\<close>. The hook is called inside
  the \<^verbatim>\<open>try\<close>. When the call itself raises, the \<^verbatim>\<open>catch\<close> logs the failure and
  \<^verbatim>\<open>handleReconnect\<close> runs in the same task. When the call returns, the invocation is
  suspended at the \<^verbatim>\<open>await\<close> (its token is put in \<open>awaiting\<close>); \<open>onerror_resume\<close> is the
  rest, run when the awaited value settles: a token, or a rejection, which the same
  \<^verbatim>\<open>catch\<close> handles. Reading \<^verbatim>\<open>readyState\<close> of a null \<^verbatim>\<open>eventSource\<close> raises TypeError.
\<close>

datatype refresh_result = Resolved string | Rejected

definition onerror :: "platform \<Rightarrow> string \<Rightarrow> sse_service \<Rightarrow> sse_service outcome" where
  "onerror P token s =
     (case eventSource s of
        None \<Rightarrow> Throws TypeError s
      | Some h \<Rightarrow>
          and_then
            (notifyConnectionListeners P ''disconnected''
               ((effect_add (ConsoleError ''SSE: Connection error'') s)\<lparr>isConnected := False\<rparr>))
            (\<lambda>s1.
               if readyState (heap s1 ! h) = 2 then
                 if shouldReconnect s1 then
                   (let s2 = effect_add
                               (ConsoleLog ''SSE: Connection closed, attempting to reconnect...'') s1
                    in case tokenRefreshCallback s2 of
                         Some hook \<Rightarrow>
                           if reconnectAttempts s2 = 0
                           then
                             (let s3 = effect_add (RefreshCalled hook)
                                         (effect_add
                                            (ConsoleLog
                                               ''SSE: Attempting to refresh token before reconnect...'')
                                            s2)
                              in if hook_raises P hook
                                 then handleReconnect P token
                                        (effect_add (ConsoleError ''SSE: Token refresh failed:'') s3)
                                 else Returns (s3\<lparr>awaiting := awaiting s3 @ [token]\<rparr>))
                           else handleReconnect P token s2
                       | None \<Rightarrow> handleReconnect P token s2)
                 else Returns s1
               else Returns s1))"

definition onerror_resume :: "platform \<Rightarrow> string \<Rightarrow> refresh_result \<Rightarrow> sse_service \<Rightarrow> sse_service outcome" where
  "onerror_resume P token result s =
     (case result of
        Resolved newToken \<Rightarrow>
          if newToken \<noteq> [] \<and> Some newToken \<noteq> lastToken s
          then Returns (state_of (connect P newToken
                                    (effect_add (ConsoleLog ''SSE: Got new token, reconnecting...'') s)))
          else handleReconnect P token s
      | Rejected \<Rightarrow>
          handleReconnect P token (effect_add (ConsoleError ''SSE: Token refresh failed:'') s))"

section \<open>The event loop\<close>

text \<open>
  What the browser does with the objects of the service. An \<^verbatim>\<open>EventSource\<close> whose
  \<^verbatim>\<open>readyState\<close> is CLOSED dispatches nothing more. Before an \<^verbatim>\<open>open\<close> event the
  browser sets \<^verbatim>\<open>readyState\<close> to OPEN; before an \<^verbatim>\<open>error\<close> event it sets it to CLOSED
  when the connection has failed for good and to CONNECTING when it will try again. An
  exception that leaves a handler is reported and dropped: the task ends, the state stays.
\<close>

datatype transport_event = Open | Message string | Named string string | Error bool

definition task :: "sse_service outcome \<Rightarrow> sse_service" where
  "task m = (case m of Returns s \<Rightarrow> s | Throws e s \<Rightarrow> effect_add (Uncaught e) s)"

definition set_readyState :: "nat \<Rightarrow> nat \<Rightarrow> sse_service \<Rightarrow> sse_service" where
  "set_readyState h v s = s\<lparr>heap := (heap s)[h := (heap s ! h)\<lparr>readyState := v\<rparr>]\<rparr>"

definition deliver :: "platform \<Rightarrow> nat \<Rightarrow> transport_event \<Rightarrow> sse_service \<Rightarrow> sse_service" where
  "deliver P h ev s =
     (if h < length (heap s) \<and> readyState (heap s ! h) \<noteq> 2 then
        (case ev of
           Open \<Rightarrow> task (onopen P (set_readyState h 1 s))
         | Message event_data \<Rightarrow> task (onmessage P event_data s)
         | Named eventType event_data \<Rightarrow>
             if eventType \<in> set (event_types (heap s ! h))
             then task (named_listener P eventType event_data s) else s
         | Error fatal \<Rightarrow>
             task (onerror P (closure_token (heap s ! h))
                     (set_readyState h (if fatal then 2 else 0) s)))
      else s)"

definition remove_nth :: "nat \<Rightarrow> 'a list \<Rightarrow> 'a list" where
  "remove_nth i xs = take i xs @ drop (Suc i) xs"

text \<open>
  One task of the event loop: a call of the application into the service, an event of a
  transport handle, a timer that fires, or the promise of the refresh hook that settles.
\<close>

datatype action =
    Connect string
  | Disconnect
  | On string callback
  | Off string callback
  | OnConnectionChange callback
  | OffConnectionChange callback
  | SetTokenRefreshCallback "callback option"
  | HandleReconnect string
  | Deliver nat transport_event
  | Timeout nat
  | Settle nat refresh_result

definition step :: "platform \<Rightarrow> action \<Rightarrow> sse_service \<Rightarrow> sse_service" where
  "step P a s =
     (case a of
        Connect token \<Rightarrow> task (connect P token s)
      | Disconnect \<Rightarrow> task (disconnect P s)
      | On event f \<Rightarrow> on event f s
      | Off event f \<Rightarrow> off event f s
      | OnConnectionChange f \<Rightarrow> onConnectionChange f s
      | OffConnectionChange f \<Rightarrow> offConnectionChange f s
      | SetTokenRefreshCallback f \<Rightarrow> setTokenRefreshCallback f s
      | HandleReconnect token \<Rightarrow> task (handleReconnect P token s)
      | Deliver h ev \<Rightarrow> deliver P h ev s
      | Timeout i \<Rightarrow>
          if i < length (timers s)
          then task (retry_callback P (snd (timers s ! i)) (s\<lparr>timers := remove_nth i (timers s)\<rparr>))
          else s
      | Settle i result \<Rightarrow>
          if i < length (awaiting s)
          then task (onerror_resume P (awaiting s ! i) result
                       (s\<lparr>awaiting := remove_nth i (awaiting s)\<rparr>))
          else s)"

definition exec :: "platform \<Rightarrow> action list \<Rightarrow> sse_service \<Rightarrow> sse_service" where
  "exec P as s = foldl (\<lambda>s' a. step P a s') s as"

text \<open>The transport handles that are not closed, by index.\<close>

definition live :: "sse_service \<Rightarrow> nat list" where
  "live s = filter (\<lambda>h. readyState (heap s ! h) \<noteq> 2) [0..<length (heap s)]"

text \<open>The callbacks registered for an event name, in registration order.\<close>

definition registered :: "sse_service \<Rightarrow> string \<Rightarrow> callback list" where
  "registered s event = (case listeners s event of None \<Rightarrow> [] | Some callbacks \<Rightarrow> callbacks)"

text \<open>
  The state that \<^verbatim>\<open>connect\<close> leaves from line 31 on, when the token is not empty and
  the field \<open>eventSource\<close> is null: the token stored, the new object on the heap with the
  twenty listeners registered, and the field referring to it.
\<close>

definition opened :: "platform \<Rightarrow> string \<Rightarrow> sse_service \<Rightarrow> sse_service" where
  "opened P token s =
     s\<lparr>lastToken := Some token,
       heap := heap s @ [\<lparr>url = stream_url P token, withCredentials = True, readyState = 0,
                          closure_token = token, event_types = named_events\<rparr>],
       eventSource := Some (length (heap s)),
       trace := trace s @ [ConsoleLog ''SSE: Connecting to:'', NewEventSource (length (heap s))]\<rparr>"

text \<open>
  The session owns its transport handle: the field \<open>eventSource\<close> refers to an object of
  the heap, and no other object of the heap is live.
\<close>

definition single_handle :: "sse_service \<Rightarrow> bool" where
  "single_handle s =
     (case eventSource s of
        None \<Rightarrow> live s = []
      | Some h \<Rightarrow> h < length (heap s) \<and> list_all (\<lambda>h'. h' = h) (live s))"

text \<open>
  What is left of the one retry the session can make: the counter, the suspended
  \<^verbatim>\<open>onerror\<close> invocations, and one more while auto-reconnect is on and no handle has
  failed yet. The invariant \<open>policy_inv\<close> bounds it by 1; while auto-reconnect is on, the
  heap holds at most the one handle the session refers to.
\<close>

definition retry_budget :: "sse_service \<Rightarrow> nat" where
  "retry_budget s =
     reconnectAttempts s + length (awaiting s)
     + (if shouldReconnect s \<and> list_all (\<lambda>e. readyState e \<noteq> 2) (heap s) then 1 else 0)"

definition policy_inv :: "sse_service \<Rightarrow> bool" where
  "policy_inv s =
     ((if shouldReconnect s
       then (if heap s = [] then eventSource s = None
             else length (heap s) = 1 \<and> eventSource s = Some 0)
       else True)
      \<and> retry_budget s \<le> 1)"

text \<open>
  The tasks of a running application: all but a direct call of \<^verbatim>\<open>handleReconnect\<close>,
  which the service makes itself from \<^verbatim>\<open>onerror\<close>.
\<close>

fun app_action :: "action \<Rightarrow> bool" where
  "app_action (HandleReconnect token) = False"
| "app_action a = True"

section \<open>Connection probe\<close>

text \<open>
  \<^verbatim>\<open>testConnection\<close> does not read or write a field of the service: its model takes no
  service state. The executor of its promise either raises (the promise is rejected) or
  leaves a probe: the throwaway \<^verbatim>\<open>EventSource\<close>, the pending timeout of 10000 ms, and the
  calls of \<^verbatim>\<open>resolve\<close> made so far, of which the first settles the promise. The
  assignment \<^verbatim>\<open>testUrl += ...\<close> to a \<^verbatim>\<open>const\<close> raises TypeError.
\<close>

record verdict =
  success :: bool
  message :: "string option"
  error :: "string option"
  verdict_readyState :: "nat option"
  details :: bool

record probe =
  test_url :: string
  test_readyState :: nat
  timeout_delay :: nat
  timeout_pending :: bool
  resolved :: "verdict list"

definition testConnection :: "platform \<Rightarrow> string \<Rightarrow> js_error + probe" where
  "testConnection P token =
     (let testUrl = API_BASE_URL P @ ''/api/sse-simple/?token='' @ encodeURIComponent token
      in if includes_str (API_BASE_URL P) ''ngrok''
         then Inl TypeError
         else Inr \<lparr>test_url = testUrl, test_readyState = 0, timeout_delay = 10000,
                   timeout_pending = True, resolved = []\<rparr>)"

definition test_close :: "probe \<Rightarrow> probe" where
  "test_close p = p\<lparr>test_readyState := 2\<rparr>"

definition resolve :: "verdict \<Rightarrow> probe \<Rightarrow> probe" where
  "resolve v p = p\<lparr>resolved := resolved p @ [v]\<rparr>"

definition test_timeout :: "probe \<Rightarrow> probe" where
  "test_timeout p =
     (let p1 = test_close p
      in resolve \<lparr>success = False, message = None, error = Some ''Connection timeout'',
                  verdict_readyState = Some (test_readyState p1), details = False\<rparr> p1)"

definition test_onopen :: "probe \<Rightarrow> probe" where
  "test_onopen p =
     (let p1 = test_close (p\<lparr>timeout_pending := False\<rparr>)
      in resolve \<lparr>success = True, message = Some ''Connection successful'', error = None,
                  verdict_readyState = None, details = False\<rparr> p1)"

definition test_onerror :: "probe \<Rightarrow> probe" where
  "test_onerror p =
     (let p1 = test_close (p\<lparr>timeout_pending := False\<rparr>)
      in resolve \<lparr>success = False, message = None, error = Some ''Connection failed'',
                  verdict_readyState = Some (test_readyState p1), details = True\<rparr> p1)"

text \<open>
  The browser's part: a closed \<^verbatim>\<open>EventSource\<close> dispatches nothing, and a timer that was
  cleared or has fired does not fire.
\<close>

datatype probe_event = ProbeOpen | ProbeError bool | ProbeTimer

definition probe_step :: "probe_event \<Rightarrow> probe \<Rightarrow> probe" where
  "probe_step ev p =
     (case ev of
        ProbeOpen \<Rightarrow>
          if test_readyState p \<noteq> 2 then test_onopen (p\<lparr>test_readyState := 1\<rparr>) else p
      | ProbeError fatal \<Rightarrow>
          if test_readyState p \<noteq> 2
          then test_onerror (p\<lparr>test_readyState := (if fatal then 2 else 0)\<rparr>) else p
      | ProbeTimer \<Rightarrow>
          if timeout_pending p then test_timeout (p\<lparr>timeout_pending := False\<rparr>) else p)"

definition probe_exec :: "probe_event list \<Rightarrow> probe \<Rightarrow> probe" where
  "probe_exec evs p = foldl (\<lambda>p' ev. probe_step ev p') p evs"

text \<open>
  The probe is either untouched (not resolved, handle not closed, timer pending) or done
  (resolved once, handle closed, timer not pending).
\<close>

definition probe_settled :: "probe \<Rightarrow> bool" where
  "probe_settled p =
     (if resolved p = [] then test_readyState p \<noteq> 2 \<and> timeout_pending p
      else length (resolved p) = 1 \<and> test_readyState p = 2 \<and> \<not> timeout_pending p)"

section \<open>Sample platform and states\<close>

text \<open>
  A platform in which \<^verbatim>\<open>JSON.parse\<close> accepts the text \<^verbatim>\<open>{}\<close> alone, callback 1 raises,
  and the refresh hook 8 raises in its call.
\<close>

definition P0 :: platform where
  "P0 = \<lparr>API_BASE_URL = ''https://api.example.org'',
         JSON_parse = (\<lambda>d. if d = ''{}'' then Some (JObject []) else None),
         cb_throws = (\<lambda>f d. f = 1),
         hook_raises = (\<lambda>f. f = 8)\<rparr>"

text \<open>The same platform behind a tunnelling proxy.\<close>

definition P_ngrok :: platform where
  "P_ngrok = P0\<lparr>API_BASE_URL := ''https://abc123.ngrok.io''\<rparr>"

text \<open>
  Sample states, each reached from the constructor by the tasks listed; where the last
  step is \<open>set_readyState\<close>, the state is the one in which the browser calls \<^verbatim>\<open>onerror\<close>
  after the connection has failed for good.
\<close>

definition sample_retry :: sse_service where
  "sample_retry =
     set_readyState 0 2
       (exec P0 [Connect ''t1'', HandleReconnect ''t1'', HandleReconnect ''t1''] constructor)"

definition sample_exhausted :: sse_service where
  "sample_exhausted =
     exec P0 [On ''connection_failed'' 3, Connect ''t1'',
              HandleReconnect ''t1'', HandleReconnect ''t1'', HandleReconnect ''t1'',
              HandleReconnect ''t1'', HandleReconnect ''t1''] constructor"

definition sample_pending :: sse_service where
  "sample_pending =
     exec P0 [OnConnectionChange 2, Connect ''t1'', Deliver 0 (Error True)] constructor"


definition sample_connected :: sse_service where
  "sample_connected = exec P0 [Connect ''t1'', Deliver 0 Open] constructor"

definition sample_listening :: sse_service where
  "sample_listening =
     exec P0 [On ''notification'' 4, Connect ''t1'', Deliver 0 Open] constructor"



section \<open>Facts about the registry\<close>

lemma forEach_guarded:
  "forEach (\<lambda>f s'. try_catch (call P f d s') (\<lambda>error s''. Returns s'')) fs s
     = Returns (s\<lparr>trace := trace s @ map (\<lambda>f. Called f d) fs\<rparr>)"
proof (induction fs arbitrary: s)
  case Nil
  show ?case by simp
next
  case (Cons f fs)
  have one: "try_catch (call P f d s) (\<lambda>error s''. Returns s'') = Returns (effect_add (Called f d) s)"
    by (simp add: try_catch_def call_def)
  show ?case
    by (simp add: one and_then_def Cons.IH effect_add_def)
qed

lemma emit_returns:
  "emit P event d s = Returns (s\<lparr>trace := trace s @ map (\<lambda>f. Called f d) (registered s event)\<rparr>)"
  by (cases "listeners s event") (simp_all add: emit_def registered_def forEach_guarded)

lemma notify_returns:
  "notifyConnectionListeners P status s
     = Returns (s\<lparr>trace := trace s @ map (\<lambda>f. Called f (JString status)) (connectionListeners s)\<rparr>)"
  by (simp add: notifyConnectionListeners_def forEach_guarded)

lemma indexOf_absent: "x \<notin> set xs \<Longrightarrow> indexOf xs x = -1"
  by (induction xs) auto

lemma indexOf_present: "x \<in> set xs \<Longrightarrow> 0 \<le> indexOf xs x"
  by (induction xs) (auto simp: Let_def)

lemma splice1_indexOf: "x \<in> set xs \<Longrightarrow> splice1 (indexOf xs x) xs = remove1 x xs"
proof (induction xs)
  case Nil
  then show ?case by simp
next
  case (Cons y ys)
  show ?case
  proof (cases "y = x")
    case True
    then show ?thesis by (simp add: splice1_def)
  next
    case False
    with Cons.prems have mem: "x \<in> set ys" by simp
    then have nonneg: "0 \<le> indexOf ys x" by (rule indexOf_present)
    then have "nat (indexOf ys x + 1) = Suc (nat (indexOf ys x))" by simp
    with False mem nonneg Cons.IH show ?thesis
      by (simp add: splice1_def Let_def)
  qed
qed

lemma registered_on: "registered (on event f s) event' =
    (if event' = event then registered s event @ [f] else registered s event')"
  by (simp add: on_def registered_def Let_def split: option.splits)

lemma registered_off: "registered (off event f s) event' =
    (if event' = event then remove1 f (registered s event) else registered s event')"
proof (cases "listeners s event")
  case None
  then show ?thesis by (simp add: off_def registered_def)
next
  case (Some fs)
  show ?thesis
  proof (cases "f \<in> set fs")
    case True
    then have "0 \<le> indexOf fs f" by (rule indexOf_present)
    with True Some show ?thesis
      by (simp add: off_def registered_def Let_def splice1_indexOf)
  next
    case False
    with Some show ?thesis
      by (simp add: off_def registered_def Let_def indexOf_absent remove1_idem)
  qed
qed

section \<open>Facts about the session\<close>

lemma fold_addEventListener:
  "eventSource s = Some h \<Longrightarrow> h < length (heap s) \<Longrightarrow>
   fold addEventListener tys s
     = s\<lparr>heap := (heap s)[h := (heap s ! h)\<lparr>event_types := event_types (heap s ! h) @ tys\<rparr>]\<rparr>"
proof (induction tys arbitrary: s)
  case Nil
  then show ?case by simp
next
  case (Cons ty tys)
  then show ?case by (simp add: addEventListener_def)
qed

lemma disconnect_returns:
  "disconnect P s = Returns
     ((case eventSource s of
         None \<Rightarrow> s
       | Some h \<Rightarrow> s\<lparr>heap := (heap s)[h := (heap s ! h)\<lparr>readyState := 2\<rparr>],
                      eventSource := None\<rparr>)
      \<lparr>shouldReconnect := False, isConnected := False,
       trace := trace s @ (case eventSource s of None \<Rightarrow> [] | Some h \<Rightarrow> [CloseEventSource h])
                @ map (\<lambda>f. Called f (JString ''disconnected'')) (connectionListeners s)\<rparr>)"
  by (cases "eventSource s")
     (simp_all add: disconnect_def notify_returns close_def effect_add_def)

lemma connect_returns:
  "connect P token s =
     Returns (let s1 = (if eventSource s \<noteq> None then state_of (disconnect P s) else s)
              in if token = [] then effect_add (ConsoleError ''SSE: No token provided'') s1
                 else opened P token s1)"
  by (simp add: connect_def and_then_def disconnect_returns state_of_def Let_def effect_add_def
        opened_def fold_addEventListener split: option.splits)


lemma live_append:
  assumes "heap s' = heap s @ [e]"
  shows "live s' = live s @ (if readyState e \<noteq> 2 then [length (heap s)] else [])"
proof -
  have "filter (\<lambda>h. readyState ((heap s @ [e]) ! h) \<noteq> 2) [0..<length (heap s)]
          = filter (\<lambda>h. readyState (heap s ! h) \<noteq> 2) [0..<length (heap s)]"
    by (rule filter_cong) (simp_all add: nth_append)
  then show ?thesis
    by (simp add: live_def assms)
qed

lemma live_closed:
  assumes "heap s' = (heap s)[h := (heap s ! h)\<lparr>readyState := 2\<rparr>]"
  shows "live s' = filter (\<lambda>h'. h' \<noteq> h) (live s)"
proof -
  have "filter (\<lambda>k. readyState ((heap s)[h := (heap s ! h)\<lparr>readyState := 2\<rparr>] ! k) \<noteq> 2)
          [0..<length (heap s)]
        = filter (\<lambda>k. k \<noteq> h \<and> readyState (heap s ! k) \<noteq> 2) [0..<length (heap s)]"
  proof (rule filter_cong)
    fix k assume "k \<in> set [0..<length (heap s)]"
    then have "k < length (heap s)" by simp
    then show "(readyState ((heap s)[h := (heap s ! h)\<lparr>readyState := 2\<rparr>] ! k) \<noteq> 2)
                 = (k \<noteq> h \<and> readyState (heap s ! k) \<noteq> 2)"
      by (cases "k = h") simp_all
  qed simp
  then show ?thesis
    by (simp add: live_def assms conj_commute)
qed

lemma live_same: "heap s' = heap s \<Longrightarrow> live s' = live s"
  by (simp add: live_def)

lemma filter_all_eq: "list_all (\<lambda>h'. h' = h) xs \<Longrightarrow> filter (\<lambda>h'. h' \<noteq> h) xs = []"
  by (induction xs) auto

lemma disconnect_released:
  assumes "single_handle s"
  shows "eventSource (state_of (disconnect P s)) = None"
    and "live (state_of (disconnect P s)) = []"
    and "length (heap (state_of (disconnect P s))) = length (heap s)"
proof -
  show "eventSource (state_of (disconnect P s)) = None"
    by (simp add: disconnect_returns state_of_def split: option.splits)
  show "length (heap (state_of (disconnect P s))) = length (heap s)"
    by (simp add: disconnect_returns state_of_def split: option.splits)
  show "live (state_of (disconnect P s)) = []"
  proof (cases "eventSource s")
    case None
    with assms have "live s = []" by (simp add: single_handle_def)
    moreover have "heap (state_of (disconnect P s)) = heap s"
      using None by (simp add: disconnect_returns state_of_def)
    then have "live (state_of (disconnect P s)) = live s" by (rule live_same)
    ultimately show ?thesis by simp
  next
    case (Some h)
    with assms have all: "list_all (\<lambda>h'. h' = h) (live s)" by (simp add: single_handle_def)
    have "heap (state_of (disconnect P s)) = (heap s)[h := (heap s ! h)\<lparr>readyState := 2\<rparr>]"
      using Some by (simp add: disconnect_returns state_of_def)
    then have "live (state_of (disconnect P s)) = filter (\<lambda>h'. h' \<noteq> h) (live s)"
      by (rule live_closed)
    with all show ?thesis by (simp add: filter_all_eq)
  qed
qed

lemma opened_facts:
  assumes "live s = []"
  shows "eventSource (opened P token s) = Some (length (heap s))"
    and "live (opened P token s) = [length (heap s)]"
    and "heap (opened P token s) ! length (heap s)
           = \<lparr>url = stream_url P token, withCredentials = True, readyState = 0,
              closure_token = token, event_types = named_events\<rparr>"
    and "h < length (heap s) \<Longrightarrow> heap (opened P token s) ! h = heap s ! h"
proof -
  have hp: "heap (opened P token s) = heap s @ [\<lparr>url = stream_url P token, withCredentials = True,
      readyState = 0, closure_token = token, event_types = named_events\<rparr>]"
    by (simp add: opened_def)
  show "eventSource (opened P token s) = Some (length (heap s))" by (simp add: opened_def)
  show "live (opened P token s) = [length (heap s)]"
    using live_append [OF hp] assms by simp
  show "heap (opened P token s) ! length (heap s)
           = \<lparr>url = stream_url P token, withCredentials = True, readyState = 0,
              closure_token = token, event_types = named_events\<rparr>"
    by (simp add: hp)
  show "h < length (heap s) \<Longrightarrow> heap (opened P token s) ! h = heap s ! h"
    by (simp add: hp nth_append)
qed


lemmas op_defs = task_def state_of_def and_then_def try_catch_def effect_add_def Let_def
  emit_returns notify_returns disconnect_returns connect_returns opened_def
  handleReconnect_def onopen_def onmessage_def named_listener_def onerror_def onerror_resume_def
  retry_callback_def deliver_def set_readyState_def
  on_def off_def onConnectionChange_def offConnectionChange_def setTokenRefreshCallback_def

lemma step_shouldReconnect: "shouldReconnect (step P a s) \<Longrightarrow> shouldReconnect s"
  by (cases a) (auto simp: step_def op_defs split: option.splits if_splits transport_event.splits refresh_result.splits)


lemmas op_splits = option.splits if_splits transport_event.splits refresh_result.splits

lemma nth_closed:
  "h < length xs \<Longrightarrow>
   readyState (xs[k := (xs ! k)\<lparr>readyState := v\<rparr>] ! h) = (if h = k then v else readyState (xs ! h))"
  by (cases "h = k") simp_all

lemma step_closed_stays:
  "h < length (heap s) \<Longrightarrow> readyState (heap s ! h) = 2 \<Longrightarrow>
   h < length (heap (step P a s)) \<and> readyState (heap (step P a s) ! h) = 2"
  by (cases a) (auto simp: step_def op_defs nth_append nth_closed split: op_splits)

lemma exec_closed_stays:
  "h < length (heap s) \<Longrightarrow> readyState (heap s ! h) = 2 \<Longrightarrow>
   h < length (heap (exec P as s)) \<and> readyState (heap (exec P as s) ! h) = 2"
proof (induction as arbitrary: s)
  case Nil
  then show ?case by (simp add: exec_def)
next
  case (Cons a as)
  from step_closed_stays [OF Cons.prems, of P a]
  have "h < length (heap (exec P as (step P a s))) \<and>
        readyState (heap (exec P as (step P a s)) ! h) = 2"
    using Cons.IH by blast
  then show ?case by (simp add: exec_def)
qed

lemma single_handle_iff:
  "single_handle s \<longleftrightarrow>
     (\<forall>h. eventSource s = Some h \<longrightarrow> h < length (heap s)) \<and>
     (\<forall>h < length (heap s). readyState (heap s ! h) \<noteq> 2 \<longrightarrow> eventSource s = Some h)"
  by (auto simp: single_handle_def live_def list_all_iff filter_empty_conv split: option.splits)

lemma single_handle_frame:
  "heap s' = heap s \<Longrightarrow> eventSource s' = eventSource s \<Longrightarrow> single_handle s' = single_handle s"
  by (simp add: single_handle_def live_def split: option.splits)

lemma single_handle_disconnect: "single_handle s \<Longrightarrow> single_handle (state_of (disconnect P s))"
  using disconnect_released [of s P] by (simp add: single_handle_def)

lemma single_handle_connect:
  assumes "single_handle s" shows "single_handle (state_of (connect P token s))"
proof -
  define s1 where "s1 = (if eventSource s \<noteq> None then state_of (disconnect P s) else s)"
  have s1: "single_handle s1" "eventSource s1 = None"
    using assms disconnect_released(1) [OF assms, of P]
    by (auto simp: s1_def single_handle_disconnect)
  then have l1: "live s1 = []" by (simp add: single_handle_def)
  show ?thesis
  proof (cases "token = []")
    case True
    have "single_handle (effect_add (ConsoleError ''SSE: No token provided'') s1) = single_handle s1"
      by (rule single_handle_frame) (simp_all add: effect_add_def)
    with True s1 show ?thesis
      by (simp add: connect_returns state_of_def s1_def Let_def)
  next
    case False
    have "single_handle (opened P token s1)"
      using opened_facts(1,2) [OF l1, of P token]
      by (simp add: single_handle_def) (simp add: opened_def)
    with False show ?thesis
      by (simp add: connect_returns state_of_def s1_def Let_def)
  qed
qed

lemma handler_frames:
  "heap (task (onopen P s)) = heap s \<and> eventSource (task (onopen P s)) = eventSource s"
  "heap (task (onmessage P d s)) = heap s \<and> eventSource (task (onmessage P d s)) = eventSource s"
  "heap (task (named_listener P ty d s)) = heap s \<and> eventSource (task (named_listener P ty d s)) = eventSource s"
  "heap (task (handleReconnect P token s)) = heap s \<and> eventSource (task (handleReconnect P token s)) = eventSource s"
     apply (simp add: op_defs)
    apply (simp add: op_defs split: option.splits)
   apply (simp add: op_defs split: option.splits)
  apply (simp add: op_defs)
  done

lemma onerror_frame:
  "heap (task (onerror P token s)) = heap s \<and> eventSource (task (onerror P token s)) = eventSource s"
  by (simp add: op_defs split: option.splits)

lemma single_handle_set_readyState:
  assumes "single_handle s" and "h < length (heap s)" and "readyState (heap s ! h) \<noteq> 2"
  shows "single_handle (set_readyState h v s)" and "eventSource (set_readyState h v s) = Some h"
proof -
  from assms have ref: "eventSource s = Some h"
    unfolding single_handle_iff by blast
  then show "eventSource (set_readyState h v s) = Some h"
    by (simp add: set_readyState_def)
  have others: "eventSource s = Some k" if "k < length (heap s)" "readyState (heap s ! k) \<noteq> 2" for k
    using assms(1) that unfolding single_handle_iff by blast
  have "eventSource s = Some k"
    if "k < length (heap s)" "readyState ((heap s)[h := (heap s ! h)\<lparr>readyState := v\<rparr>] ! k) \<noteq> 2" for k
  proof (cases "k = h")
    case True
    with ref show ?thesis by simp
  next
    case False
    with that have "readyState (heap s ! k) \<noteq> 2" by (simp add: nth_closed)
    with that(1) show ?thesis by (rule others)
  qed
  with ref assms(2) show "single_handle (set_readyState h v s)"
    unfolding single_handle_iff set_readyState_def by simp
qed

lemma single_handle_task:
  assumes "single_handle s" and "heap s' = heap s \<and> eventSource s' = eventSource s"
  shows "single_handle s'"
  using assms single_handle_frame [of s' s] by simp

lemma single_handle_deliver:
  assumes sh: "single_handle s" shows "single_handle (deliver P h ev s)"
proof (cases "h < length (heap s) \<and> readyState (heap s ! h) \<noteq> 2")
  case False
  with sh show ?thesis by (auto simp: deliver_def)
next
  case True
  then have lt: "h < length (heap s)" and lv: "readyState (heap s ! h) \<noteq> 2" by simp_all
  note sr = single_handle_set_readyState(1) [OF sh lt lv]
  show ?thesis
  proof (cases ev)
    case Open
    have "single_handle (task (onopen P (set_readyState h 1 s)))"
      using sr handler_frames(1) by (rule single_handle_task)
    with True Open show ?thesis by (simp add: deliver_def)
  next
    case (Message d)
    have "single_handle (task (onmessage P d s))"
      using sh handler_frames(2) by (rule single_handle_task)
    with True Message show ?thesis by (simp add: deliver_def)
  next
    case (Named ty d)
    have "single_handle (task (named_listener P ty d s))"
      using sh handler_frames(3) by (rule single_handle_task)
    with True Named sh show ?thesis by (simp add: deliver_def)
  next
    case (Error fatal)
    have "single_handle (task (onerror P (closure_token (heap s ! h))
                                 (set_readyState h (if fatal then 2 else 0) s)))"
      using sr onerror_frame by (rule single_handle_task)
    with True Error show ?thesis by (simp add: deliver_def)
  qed
qed

lemma single_handle_resume:
  assumes sh: "single_handle s" shows "single_handle (task (onerror_resume P token r s))"
proof (cases r)
  case Rejected
  have "single_handle (effect_add (ConsoleError ''SSE: Token refresh failed:'') s)"
    using sh by (rule single_handle_task) (simp add: effect_add_def)
  then have "single_handle (task (handleReconnect P token (effect_add (ConsoleError ''SSE: Token refresh failed:'') s)))"
    using handler_frames(4) by (rule single_handle_task)
  with Rejected show ?thesis by (simp add: onerror_resume_def)
next
  case (Resolved newToken)
  show ?thesis
  proof (cases "newToken \<noteq> [] \<and> Some newToken \<noteq> lastToken s")
    case True
    have "single_handle (effect_add (ConsoleLog ''SSE: Got new token, reconnecting...'') s)"
      using sh by (rule single_handle_task) (simp add: effect_add_def)
    then have "single_handle (state_of (connect P newToken
                 (effect_add (ConsoleLog ''SSE: Got new token, reconnecting...'') s)))"
      by (rule single_handle_connect)
    with True Resolved show ?thesis by (simp add: onerror_resume_def task_def)
  next
    case False
    have "single_handle (task (handleReconnect P token s))"
      using sh handler_frames(4) by (rule single_handle_task)
    with False Resolved show ?thesis by (auto simp: onerror_resume_def)
  qed
qed

lemma task_connect: "task (connect P token s) = state_of (connect P token s)"
  by (simp add: connect_returns task_def state_of_def)

lemma task_disconnect: "task (disconnect P s) = state_of (disconnect P s)"
  by (simp add: disconnect_returns task_def state_of_def)

lemma step_single_handle:
  assumes sh: "single_handle s" shows "single_handle (step P a s)"
proof (cases a)
  case (Connect token)
  with single_handle_connect [OF sh] show ?thesis by (simp add: step_def task_connect)
next
  case Disconnect
  with single_handle_disconnect [OF sh] show ?thesis by (simp add: step_def task_disconnect)
next
  case (On event f)
  have "single_handle (on event f s)"
    using sh by (rule single_handle_task) (simp add: on_def Let_def)
  with On show ?thesis by (simp add: step_def)
next
  case (Off event f)
  have "single_handle (off event f s)"
    using sh by (rule single_handle_task) (simp add: off_def Let_def split: option.splits)
  with Off show ?thesis by (simp add: step_def)
next
  case (OnConnectionChange f)
  have "single_handle (onConnectionChange f s)"
    using sh by (rule single_handle_task) (simp add: onConnectionChange_def)
  with OnConnectionChange show ?thesis by (simp add: step_def)
next
  case (OffConnectionChange f)
  have "single_handle (offConnectionChange f s)"
    using sh by (rule single_handle_task) (simp add: offConnectionChange_def Let_def)
  with OffConnectionChange show ?thesis by (simp add: step_def)
next
  case (SetTokenRefreshCallback f)
  have "single_handle (setTokenRefreshCallback f s)"
    using sh by (rule single_handle_task) (simp add: setTokenRefreshCallback_def)
  with SetTokenRefreshCallback show ?thesis by (simp add: step_def)
next
  case (HandleReconnect token)
  have "single_handle (task (handleReconnect P token s))"
    using sh handler_frames(4) by (rule single_handle_task)
  with HandleReconnect show ?thesis by (simp add: step_def)
next
  case (Deliver h ev)
  with single_handle_deliver [OF sh] show ?thesis by (simp add: step_def)
next
  case (Timeout i)
  have s1: "single_handle (s\<lparr>timers := remove_nth i (timers s)\<rparr>)"
    using sh by (rule single_handle_task) simp
  have "single_handle (task (retry_callback P token (s\<lparr>timers := remove_nth i (timers s)\<rparr>)))" for token
    using s1 single_handle_connect [OF s1, of P token]
    by (simp add: retry_callback_def task_def)
  with Timeout sh show ?thesis by (simp add: step_def)
next
  case (Settle i r)
  have s1: "single_handle (s\<lparr>awaiting := remove_nth i (awaiting s)\<rparr>)"
    using sh by (rule single_handle_task) simp
  from single_handle_resume [OF s1] Settle sh show ?thesis by (simp add: step_def)
qed

lemma exec_single_handle: "single_handle s \<Longrightarrow> single_handle (exec P as s)"
proof (induction as arbitrary: s)
  case Nil
  then show ?case by (simp add: exec_def)
next
  case (Cons a as)
  from Cons.prems have "single_handle (step P a s)" by (rule step_single_handle)
  then have "single_handle (exec P as (step P a s))" by (rule Cons.IH)
  then show ?case by (simp add: exec_def)
qed

lemma constructor_single_handle: "single_handle constructor"
  by (simp add: single_handle_def constructor_def live_def)

lemma reachable_single_handle: "single_handle (exec P as constructor)"
  using constructor_single_handle by (rule exec_single_handle)

lemma deliver_closed:
  "h < length (heap s) \<Longrightarrow> readyState (heap s ! h) = 2 \<Longrightarrow> deliver P h ev s = s"
  by (simp add: deliver_def)

lemma handleReconnect_below:
  "reconnectAttempts s < maxReconnectAttempts s \<Longrightarrow>
   handleReconnect P token s
     = Returns (s\<lparr>reconnectAttempts := Suc (reconnectAttempts s),
                  timers := timers s @ [(reconnectDelay s * Suc (reconnectAttempts s), token)]\<rparr>)"
  by (simp add: handleReconnect_def Let_def)

lemma onerror_terminal_no_hook:
  assumes "eventSource s = Some h" and "readyState (heap s ! h) = 2" and "shouldReconnect s"
    and "tokenRefreshCallback s = None \<or> reconnectAttempts s \<noteq> 0"
  shows "onerror P token s
           = handleReconnect P token
               (s\<lparr>isConnected := False,
                  trace := trace s @ ConsoleError ''SSE: Connection error''
                    # map (\<lambda>f. Called f (JString ''disconnected'')) (connectionListeners s)
                    @ [ConsoleLog ''SSE: Connection closed, attempting to reconnect...'']\<rparr>)"
  using assms
  by (auto simp: onerror_def notify_returns and_then_def effect_add_def Let_def split: option.splits)

lemma handleReconnect_at_max:
  "maxReconnectAttempts s \<le> reconnectAttempts s \<Longrightarrow>
   handleReconnect P token s
     = Returns (s\<lparr>trace := trace s @ map (\<lambda>f. Called f connection_failed_data)
                                         (registered s ''connection_failed'')\<rparr>)"
  by (simp add: handleReconnect_def emit_returns connection_failed_data_def)

lemma step_max: "maxReconnectAttempts (step P a s) = maxReconnectAttempts s"
  by (cases a) (auto simp: step_def op_defs split: op_splits)

lemma step_attempts_exhausted:
  "maxReconnectAttempts s \<le> reconnectAttempts s \<Longrightarrow> \<forall>h. a \<noteq> Deliver h Open \<Longrightarrow>
   reconnectAttempts (step P a s) = reconnectAttempts s"
  by (cases a) (auto simp: step_def op_defs split: op_splits)

lemma deliver_open_resets:
  "h < length (heap s) \<Longrightarrow> readyState (heap s ! h) \<noteq> 2 \<Longrightarrow>
   reconnectAttempts (step P (Deliver h Open) s) = 0"
  by (simp add: step_def op_defs)

lemma exec_Cons: "exec P (a # as) s = exec P as (step P a s)"
  by (simp add: exec_def)

lemma exec_Nil: "exec P [] s = s"
  by (simp add: exec_def)

lemma exec_attempts_exhausted:
  "maxReconnectAttempts s \<le> reconnectAttempts s \<Longrightarrow>
   \<forall>a \<in> set as. \<forall>h. a \<noteq> Deliver h Open \<Longrightarrow>
   reconnectAttempts (exec P as s) = reconnectAttempts s"
proof (induction as arbitrary: s)
  case Nil
  show ?case by (simp add: exec_Nil)
next
  case (Cons a as)
  from Cons.prems have a: "\<forall>h. a \<noteq> Deliver h Open" by simp
  have keep: "reconnectAttempts (step P a s) = reconnectAttempts s"
    using Cons.prems(1) a by (rule step_attempts_exhausted)
  with Cons.prems(1) have "maxReconnectAttempts (step P a s) \<le> reconnectAttempts (step P a s)"
    by (simp add: step_max)
  moreover from Cons.prems(2) have "\<forall>a \<in> set as. \<forall>h. a \<noteq> Deliver h Open" by simp
  ultimately have "reconnectAttempts (exec P as (step P a s)) = reconnectAttempts (step P a s)"
    by (rule Cons.IH)
  with keep show ?case by (simp add: exec_Cons)
qed

lemma sample_retry_facts:
  "maxReconnectAttempts sample_retry = 5" "reconnectAttempts sample_retry = 2"
  "reconnectDelay sample_retry = 1000" "timers sample_retry = [(1000, ''t1''), (2000, ''t1'')]"
  "eventSource sample_retry = Some 0" "readyState (heap sample_retry ! 0) = 2"
  "shouldReconnect sample_retry" "tokenRefreshCallback sample_retry = None"
  by (simp_all add: sample_retry_def exec_def step_def handleReconnect_def task_def
        connect_returns opened_def set_readyState_def constructor_def Let_def)

lemma exec_policy_calls_exhausted:
  "maxReconnectAttempts s \<le> reconnectAttempts s \<Longrightarrow>
   exec P (map HandleReconnect tokens) s
     = s\<lparr>trace := trace s @ concat (replicate (length tokens)
                          (map (\<lambda>f. Called f connection_failed_data)
                             (registered s ''connection_failed'')))\<rparr>"
proof (induction tokens arbitrary: s)
  case Nil
  show ?case by (simp add: exec_Nil)
next
  case (Cons token tokens)
  define s' where "s' = s\<lparr>trace := trace s @ map (\<lambda>f. Called f connection_failed_data)
                                             (registered s ''connection_failed'')\<rparr>"
  have one: "step P (HandleReconnect token) s = s'"
    by (simp add: step_def task_def handleReconnect_at_max [OF Cons.prems] s'_def)
  have still: "maxReconnectAttempts s' \<le> reconnectAttempts s'"
    using Cons.prems by (simp add: s'_def)
  have same: "registered s' ''connection_failed'' = registered s ''connection_failed''"
    by (simp add: s'_def registered_def)
  from Cons.IH [OF still] show ?case
    by (simp add: exec_Cons one same) (simp add: s'_def)
qed

lemma sample_exhausted_facts:
  "maxReconnectAttempts sample_exhausted = 5" "reconnectAttempts sample_exhausted = 5"
  "registered sample_exhausted ''connection_failed'' = [3]"
  "length (timers sample_exhausted) = 5"
  "heap sample_exhausted = [\<lparr>url = stream_url P0 ''t1'', withCredentials = True, readyState = 0,
                              closure_token = ''t1'', event_types = named_events\<rparr>]"
  "connectionListeners sample_exhausted = []"
  "listeners sample_exhausted ''connected'' = None"
  by (simp_all add: sample_exhausted_def exec_def step_def handleReconnect_def task_def
        connect_returns opened_def on_def registered_def constructor_def Let_def effect_add_def)

lemma exec_shouldReconnect: "\<not> shouldReconnect s \<Longrightarrow> \<not> shouldReconnect (exec P as s)"
proof (induction as arbitrary: s)
  case Nil
  then show ?case by (simp add: exec_Nil)
next
  case (Cons a as)
  from Cons.prems step_shouldReconnect [of P a s] have "\<not> shouldReconnect (step P a s)" by blast
  then have "\<not> shouldReconnect (exec P as (step P a s))" by (rule Cons.IH)
  then show ?case by (simp add: exec_Cons)
qed

lemma disconnect_flag: "\<not> shouldReconnect (state_of (disconnect P s))"
  by (simp add: disconnect_returns state_of_def)

lemma retry_callback_off: "\<not> shouldReconnect s \<Longrightarrow> retry_callback P token s = Returns s"
  by (simp add: retry_callback_def)

lemma timeout_off:
  "\<not> shouldReconnect s \<Longrightarrow> i < length (timers s) \<Longrightarrow>
   step P (Timeout i) s = s\<lparr>timers := remove_nth i (timers s)\<rparr>"
  by (simp add: step_def retry_callback_def task_def)

lemma sample_pending_facts:
  "timers sample_pending = [(1000, ''t1'')]" "shouldReconnect sample_pending"
  "eventSource sample_pending = Some 0" "reconnectAttempts sample_pending = 1"
  "length (heap sample_pending) = 1" "readyState (heap sample_pending ! 0) = 2"
  by (simp_all add: sample_pending_def exec_def step_def op_defs constructor_def P0_def)




lemma count_list_app: "count_list (xs @ ys) x = count_list xs x + count_list ys x"
  by (induction xs) simp_all





lemma sample_connected_facts:
  "eventSource sample_connected = Some 0" "isConnected sample_connected"
  "shouldReconnect sample_connected" "length (heap sample_connected) = 1"
  "readyState (heap sample_connected ! 0) = 1" "connectionListeners sample_connected = []"
  by (simp_all add: sample_connected_def exec_def step_def connect_returns
        state_of_def opened_def Let_def deliver_def onopen_def emit_returns notify_returns
        and_then_def task_def set_readyState_def constructor_def registered_def)




lemma sample_pending_policy:
  "reconnectDelay sample_pending = 1000" "maxReconnectAttempts sample_pending = 5"
  by (simp_all add: sample_pending_def exec_def step_def op_defs constructor_def P0_def)

lemma connect_without_token_held:
  "eventSource s \<noteq> None \<Longrightarrow>
   connect P [] s
     = Returns (effect_add (ConsoleError ''SSE: No token provided'') (state_of (disconnect P s)))"
  by (simp add: connect_returns Let_def)

lemma named_listener_unparsable:
  "JSON_parse P event_data = None \<Longrightarrow> eventType \<noteq> ''heartbeat'' \<Longrightarrow>
   named_listener P eventType event_data s = Throws SyntaxError s"
  by (simp add: named_listener_def)

lemma onmessage_unparsable:
  "JSON_parse P event_data = None \<Longrightarrow> onmessage P event_data s = Returns s"
  by (simp add: onmessage_def try_catch_def)

lemma named_listener_parsed:
  "JSON_parse P event_data = Some data \<Longrightarrow> eventType \<noteq> ''heartbeat'' \<Longrightarrow>
   eventType \<noteq> ''connected'' \<Longrightarrow>
   named_listener P eventType event_data s = emit P eventType data s"
  by (simp add: named_listener_def)

lemma sample_listening_facts:
  "length (heap sample_listening) = 1" "readyState (heap sample_listening ! 0) = 1"
  "event_types (heap sample_listening ! 0) = named_events"
  "registered sample_listening ''notification'' = [4]"
  by (simp_all add: sample_listening_def exec_def step_def connect_returns
        state_of_def opened_def Let_def deliver_def onopen_def emit_returns notify_returns
        and_then_def task_def set_readyState_def constructor_def registered_def on_def)

lemma probe_step_settled: "probe_settled p \<Longrightarrow> probe_settled (probe_step ev p)"
  by (cases ev)
     (auto simp: probe_settled_def probe_step_def test_onopen_def test_onerror_def
        test_timeout_def test_close_def resolve_def Let_def split: if_splits)

lemma probe_exec_settled: "probe_settled p \<Longrightarrow> probe_settled (probe_exec evs p)"
proof (induction evs arbitrary: p)
  case Nil
  then show ?case by (simp add: probe_exec_def)
next
  case (Cons ev evs)
  from Cons.prems have "probe_settled (probe_step ev p)" by (rule probe_step_settled)
  then have "probe_settled (probe_exec evs (probe_step ev p))" by (rule Cons.IH)
  then show ?case by (simp add: probe_exec_def)
qed

lemma probe_step_resolves:
  "probe_settled p \<Longrightarrow> resolved (probe_step ev p) \<noteq> []"
  by (cases ev)
     (auto simp: probe_settled_def probe_step_def test_onopen_def test_onerror_def
        test_timeout_def test_close_def resolve_def Let_def split: if_splits)

lemma testConnection_plain:
  "\<not> includes_str (API_BASE_URL P) ''ngrok'' \<Longrightarrow>
   \<exists>p. testConnection P token = Inr p \<and> probe_settled p \<and> resolved p = []
       \<and> timeout_delay p = 10000
       \<and> test_url p = API_BASE_URL P @ ''/api/sse-simple/?token='' @ encodeURIComponent token"
  by (simp add: testConnection_def probe_settled_def Let_def)

lemma probe_resolves_once:
  assumes "testConnection P token = Inr p"
  shows "length (resolved (probe_exec evs p)) \<le> 1"
    and "resolved (probe_exec evs p) \<noteq> [] \<Longrightarrow> test_readyState (probe_exec evs p) = 2"
    and "evs \<noteq> [] \<Longrightarrow> length (resolved (probe_exec evs p)) = 1"
proof -
  from assms have start: "probe_settled p"
    by (auto simp: testConnection_def probe_settled_def Let_def split: if_splits)
  then have fin: "probe_settled (probe_exec evs p)" by (rule probe_exec_settled)
  then show "length (resolved (probe_exec evs p)) \<le> 1"
    by (auto simp: probe_settled_def split: if_splits)
  from fin show "resolved (probe_exec evs p) \<noteq> [] \<Longrightarrow> test_readyState (probe_exec evs p) = 2"
    by (auto simp: probe_settled_def split: if_splits)
  show "length (resolved (probe_exec evs p)) = 1" if "evs \<noteq> []"
  proof -
    from that obtain evs' ev where evs: "evs = evs' @ [ev]"
      by (cases evs rule: rev_cases) auto
    from start have "probe_settled (probe_exec evs' p)" by (rule probe_exec_settled)
    then have "resolved (probe_step ev (probe_exec evs' p)) \<noteq> []"
      by (rule probe_step_resolves)
    then have "resolved (probe_exec evs p) \<noteq> []"
      by (simp add: evs probe_exec_def)
    with fin show ?thesis by (auto simp: probe_settled_def split: if_splits)
  qed
qed

section \<open>The retry budget of a running session\<close>

lemma policy_inv_constructor: "policy_inv constructor"
  by (simp add: policy_inv_def retry_budget_def constructor_def)

lemma singleton_heap: "length xs = Suc 0 \<Longrightarrow> \<exists>e. xs = [e]"
  by (cases xs) auto

lemma policy_inv_connect: "policy_inv s \<Longrightarrow> policy_inv (state_of (connect P token s))"
  by (auto simp: policy_inv_def retry_budget_def connect_returns disconnect_returns state_of_def
        opened_def effect_add_def Let_def split: option.splits if_splits)

lemma policy_inv_disconnect: "policy_inv s \<Longrightarrow> policy_inv (state_of (disconnect P s))"
  by (auto simp: policy_inv_def retry_budget_def disconnect_returns state_of_def
        split: option.splits if_splits)

lemma policy_inv_off:
  "\<not> shouldReconnect s \<Longrightarrow>
   policy_inv s = (reconnectAttempts s + length (awaiting s) \<le> 1)"
  by (simp add: policy_inv_def retry_budget_def)

lemma policy_inv_deliver_off:
  assumes "policy_inv s" and "\<not> shouldReconnect s"
  shows "policy_inv (deliver P h ev s)"
proof -
  have flag: "\<not> shouldReconnect (deliver P h ev s)"
    using assms(2)
    by (cases ev) (auto simp: deliver_def op_defs split: option.splits)
  have "reconnectAttempts (deliver P h ev s) + length (awaiting (deliver P h ev s)) \<le> 1"
    using assms
    by (cases ev) (auto simp: policy_inv_off deliver_def op_defs split: option.splits)
  with flag show ?thesis by (simp add: policy_inv_off)
qed

lemma deliver_flag: "shouldReconnect (deliver P h ev s) = shouldReconnect s"
  by (cases ev) (auto simp: deliver_def op_defs split: option.splits)

lemma policy_inv_deliver_on:
  assumes inv: "policy_inv s" and on: "shouldReconnect s"
  shows "policy_inv (deliver P h ev s)"
proof (cases "h < length (heap s) \<and> readyState (heap s ! h) \<noteq> 2")
  case False
  with inv show ?thesis by (auto simp: deliver_def)
next
  case True
  from inv on True have one: "length (heap s) = Suc 0" and ref: "eventSource s = Some 0"
    by (auto simp: policy_inv_def split: if_splits)
  from one obtain e where heap: "heap s = [e]" by (auto dest: singleton_heap)
  from inv on True heap ref have e: "heap s = [e]" "eventSource s = Some 0" "h = 0"
    "readyState e \<noteq> 2" "reconnectAttempts s = 0" "awaiting s = []"
    by (auto simp: policy_inv_def retry_budget_def split: if_splits)
  have flag: "shouldReconnect (deliver P h ev s)"
    using on by (simp add: deliver_flag)
  show ?thesis
  proof (cases ev)
    case Open
    with e on show ?thesis
      by (simp add: policy_inv_def retry_budget_def deliver_def op_defs)
  next
    case (Message d)
    with e on show ?thesis
      by (auto simp: policy_inv_def retry_budget_def deliver_def op_defs split: option.splits)
  next
    case (Named ty d)
    with e on show ?thesis
      by (auto simp: policy_inv_def retry_budget_def deliver_def op_defs split: option.splits)
  next
    case (Error fatal)
    with e on show ?thesis
      by (cases fatal)
         (auto simp: policy_inv_def retry_budget_def deliver_def op_defs split: option.splits)
  qed
qed

lemma policy_inv_deliver: "policy_inv s \<Longrightarrow> policy_inv (deliver P h ev s)"
  using policy_inv_deliver_on policy_inv_deliver_off by blast

lemma policy_inv_resume:
  assumes inv: "policy_inv s" and i: "i < length (awaiting s)"
  shows "policy_inv (task (onerror_resume P (awaiting s ! i) r (s\<lparr>awaiting := remove_nth i (awaiting s)\<rparr>)))"
proof -
  define s1 where "s1 = s\<lparr>awaiting := remove_nth i (awaiting s)\<rparr>"
  from i have len: "length (remove_nth i (awaiting s)) = length (awaiting s) - 1"
    by (simp add: remove_nth_def)
  from inv i have zero: "reconnectAttempts s = 0" and one: "length (awaiting s) = 1"
    by (auto simp: policy_inv_def retry_budget_def split: if_splits)
  have live_off: "\<not> (shouldReconnect s \<and> list_all (\<lambda>e. readyState e \<noteq> 2) (heap s))"
    using inv i by (auto simp: policy_inv_def retry_budget_def split: if_splits)
  have s1: "policy_inv s1" "reconnectAttempts s1 = 0" "awaiting s1 = []"
    "\<not> (shouldReconnect s1 \<and> list_all (\<lambda>e. readyState e \<noteq> 2) (heap s1))"
    using inv zero one len live_off
    by (auto simp: s1_def policy_inv_def retry_budget_def split: if_splits option.splits)
  have hr: "policy_inv (task (handleReconnect P token s'))"
    if "policy_inv s'" "reconnectAttempts s' = 0" "awaiting s' = []"
       "\<not> (shouldReconnect s' \<and> list_all (\<lambda>e. readyState e \<noteq> 2) (heap s'))" for s' token
    using that
    by (auto simp: policy_inv_def retry_budget_def handleReconnect_def emit_returns task_def Let_def
          split: if_splits option.splits)
  show ?thesis
  proof (cases r)
    case Rejected
    have "policy_inv (task (handleReconnect P (awaiting s ! i)
                              (effect_add (ConsoleError ''SSE: Token refresh failed:'') s1)))"
      using s1 by (intro hr) (auto simp: effect_add_def policy_inv_def retry_budget_def)
    with Rejected show ?thesis by (simp add: onerror_resume_def s1_def)
  next
    case (Resolved newToken)
    show ?thesis
    proof (cases "newToken \<noteq> [] \<and> Some newToken \<noteq> lastToken s1")
      case True
      have "policy_inv (effect_add (ConsoleLog ''SSE: Got new token, reconnecting...'') s1)"
        using s1(1) by (simp add: effect_add_def policy_inv_def retry_budget_def)
      then have "policy_inv (state_of (connect P newToken
                   (effect_add (ConsoleLog ''SSE: Got new token, reconnecting...'') s1)))"
        by (rule policy_inv_connect)
      with True Resolved show ?thesis
        by (simp add: onerror_resume_def task_def s1_def)
    next
      case False
      have "policy_inv (task (handleReconnect P (awaiting s ! i) s1))"
        using s1 by (intro hr)
      with False Resolved show ?thesis
        by (auto simp: onerror_resume_def s1_def)
    qed
  qed
qed

lemma policy_inv_frame:
  assumes "policy_inv s"
    and "shouldReconnect s' = shouldReconnect s" and "heap s' = heap s"
    and "eventSource s' = eventSource s" and "reconnectAttempts s' = reconnectAttempts s"
    and "awaiting s' = awaiting s"
  shows "policy_inv s'"
  using assms by (simp add: policy_inv_def retry_budget_def)

lemma policy_inv_step:
  assumes inv: "policy_inv s" and app: "app_action a"
  shows "policy_inv (step P a s)"
proof (cases a)
  case (Connect token)
  with policy_inv_connect [OF inv] show ?thesis by (simp add: step_def task_connect)
next
  case Disconnect
  with policy_inv_disconnect [OF inv] show ?thesis by (simp add: step_def task_disconnect)
next
  case (On event f)
  have "policy_inv (on event f s)"
    using inv by (rule policy_inv_frame) (simp_all add: on_def Let_def)
  with On show ?thesis by (simp add: step_def)
next
  case (Off event f)
  have "policy_inv (off event f s)"
    using inv by (rule policy_inv_frame) (simp_all add: off_def Let_def split: option.splits)
  with Off show ?thesis by (simp add: step_def)
next
  case (OnConnectionChange f)
  have "policy_inv (onConnectionChange f s)"
    using inv by (rule policy_inv_frame) (simp_all add: onConnectionChange_def)
  with OnConnectionChange show ?thesis by (simp add: step_def)
next
  case (OffConnectionChange f)
  have "policy_inv (offConnectionChange f s)"
    using inv by (rule policy_inv_frame) (simp_all add: offConnectionChange_def Let_def)
  with OffConnectionChange show ?thesis by (simp add: step_def)
next
  case (SetTokenRefreshCallback f)
  have "policy_inv (setTokenRefreshCallback f s)"
    using inv by (rule policy_inv_frame) (simp_all add: setTokenRefreshCallback_def)
  with SetTokenRefreshCallback show ?thesis by (simp add: step_def)
next
  case (HandleReconnect token)
  with app show ?thesis by simp
next
  case (Deliver h ev)
  with policy_inv_deliver [OF inv] show ?thesis by (simp add: step_def)
next
  case (Timeout i)
  have s1: "policy_inv (s\<lparr>timers := remove_nth i (timers s)\<rparr>)"
    using inv by (rule policy_inv_frame) simp_all
  have "policy_inv (task (retry_callback P token (s\<lparr>timers := remove_nth i (timers s)\<rparr>)))" for token
    using s1 policy_inv_connect [OF s1, of P token]
    by (simp add: retry_callback_def task_def)
  with Timeout inv show ?thesis by (simp add: step_def)
next
  case (Settle i r)
  with policy_inv_resume [OF inv] inv show ?thesis by (simp add: step_def)
qed

lemma policy_inv_exec:
  "policy_inv s \<Longrightarrow> list_all app_action as \<Longrightarrow> policy_inv (exec P as s)"
proof (induction as arbitrary: s)
  case Nil
  then show ?case by (simp add: exec_Nil)
next
  case (Cons a as)
  from Cons.prems have "policy_inv (step P a s)" by (simp add: policy_inv_step)
  moreover from Cons.prems have "list_all app_action as" by simp
  ultimately have "policy_inv (exec P as (step P a s))" by (rule Cons.IH)
  then show ?case by (simp add: exec_Cons)
qed

lemma reachable_attempts:
  assumes "list_all app_action as"
  shows "reconnectAttempts (exec P as constructor) \<le> 1"
proof -
  from policy_inv_constructor assms have "policy_inv (exec P as constructor)"
    by (rule policy_inv_exec)
  then show ?thesis by (simp add: policy_inv_def retry_budget_def)
qed

lemma never_exhausted:
  assumes "list_all app_action as"
  shows "reconnectAttempts (exec P as constructor) < maxReconnectAttempts (exec P as constructor)"
proof -
  have "maxReconnectAttempts (exec P as s) = maxReconnectAttempts s" for s
    by (induction as arbitrary: s) (simp_all add: exec_Nil exec_Cons step_max)
  then have "maxReconnectAttempts (exec P as constructor) = 5"
    by (simp add: constructor_def)
  with reachable_attempts [OF assms, of P] show ?thesis by simp
qed

section \<open>Claims\<close>

text \<open>
  C9. For every event name and data, \<^verbatim>\<open>emit\<close> calls every callback registered for that
  name, in registration order, whatever the callbacks raise, and returns to its caller
  without raising. A callback registered twice with \<^verbatim>\<open>on\<close> is called twice by one
  \<^verbatim>\<open>emit\<close>; one \<^verbatim>\<open>off\<close> removes the first matching registration only, so that of the
  two registrations one is left and fires once. In the sample platform callback 1 raises:
  registered before callback 2, it is called, and callback 2 is called after it.
\<close>

theorem emit_fanout_isolated:
  "emit P event d s
     = Returns (s\<lparr>trace := trace s @ map (\<lambda>f. Called f d) (registered s event)\<rparr>)
   \<and> registered (on event f (on event f s)) event = registered s event @ [f, f]
   \<and> registered (off event f s) event = remove1 f (registered s event)
   \<and> count_list (registered (off event f (on event f (on event f s))) event) f
       = count_list (registered s event) f + 1
   \<and> trace (state_of (emit P event d (off event f (on event f (on event f constructor)))))
       = [Called f d]
   \<and> call P0 1 d s = Throws (Thrown 1) (effect_add (Called 1 d) s)
   \<and> (\<exists>s'. emit P0 event d (on event 2 (on event 1 constructor)) = Returns s'
            \<and> trace s' = [Called 1 d, Called 2 d])"
proof -
  have twice: "registered (on event f (on event f s)) event = registered s event @ [f, f]" for s
    by (simp add: registered_on)
  have removed: "registered (off event f (on event f (on event f s))) event
                   = remove1 f (registered s event @ [f, f])" for s
    by (simp add: registered_off twice)
  have count: "count_list (remove1 f (xs @ [f, f])) f = count_list xs f + 1" for xs :: "callback list"
    by (induction xs) auto
  have fresh: "registered constructor event = []"
    by (simp add: registered_def constructor_def)
  have last: "trace (state_of (emit P event d (off event f (on event f (on event f constructor)))))
                = [Called f d]"
    by (simp add: emit_returns state_of_def removed fresh)
       (simp add: off_def on_def constructor_def Let_def)
  have raises: "call P0 1 d s = Throws (Thrown 1) (effect_add (Called 1 d) s)"
    by (simp add: call_def P0_def)
  have isolated: "\<exists>s'. emit P0 event d (on event 2 (on event 1 constructor)) = Returns s'
                     \<and> trace s' = [Called 1 d, Called 2 d]"
    by (simp add: emit_returns registered_on)
       (simp add: registered_def constructor_def on_def Let_def)
  have general: "emit P event d s
     = Returns (s\<lparr>trace := trace s @ map (\<lambda>f. Called f d) (registered s event)\<rparr>)"
    by (rule emit_returns)
  have first_only: "registered (off event f s) event = remove1 f (registered s event)"
    by (simp add: registered_off)
  have counted: "count_list (registered (off event f (on event f (on event f s))) event) f
       = count_list (registered s event) f + 1"
    by (simp add: removed count)
  from general twice first_only counted last raises isolated show ?thesis
    by blast
qed

text \<open>
  C1. In a state where the session owns its transport handle (no other handle is live),
  for tokens \<open>T\<close> and \<open>T'\<close> that are not empty, \<^verbatim>\<open>connect(T)\<close> followed at once by
  \<^verbatim>\<open>connect(T')\<close> leaves exactly one live handle; it is the one the session refers to and
  its URL is the one built from \<open>T'\<close>. The handle opened for \<open>T\<close> is closed and the field
  cleared (the state \<open>sm\<close>, in which no handle is live) before the new handle is created:
  the trace has the close of the old handle before the creation of the new one. The old
  handle stays closed whatever happens later, so no event is delivered through it.
\<close>

theorem connect_supersedes:
  assumes sh: "single_handle s" and T: "T \<noteq> []" and T': "T' \<noteq> []"
  shows "\<exists>s1 sm s2 h1 h2.
           connect P T s = Returns s1 \<and> eventSource s1 = Some h1 \<and> live s1 = [h1]
         \<and> disconnect P s1 = Returns sm \<and> eventSource sm = None \<and> live sm = []
         \<and> connect P T' s1 = Returns s2 \<and> connect P T' sm = Returns s2
         \<and> eventSource s2 = Some h2 \<and> live s2 = [h2] \<and> h1 \<noteq> h2
         \<and> url (heap s2 ! h2) = stream_url P T' \<and> closure_token (heap s2 ! h2) = T'
         \<and> h1 < length (heap s2) \<and> readyState (heap s2 ! h1) = 2
         \<and> trace s2 = trace s1 @ CloseEventSource h1
                # map (\<lambda>f. Called f (JString ''disconnected'')) (connectionListeners s1)
                @ [ConsoleLog ''SSE: Connecting to:'', NewEventSource h2]
         \<and> (\<forall>as ev. deliver P h1 ev (exec P as s2) = exec P as s2)"
proof -
  define s0 where "s0 = (if eventSource s \<noteq> None then state_of (disconnect P s) else s)"
  define s1 where "s1 = opened P T s0"
  define sm where "sm = state_of (disconnect P s1)"
  define s2 where "s2 = opened P T' sm"
  define h1 where "h1 = length (heap s0)"
  define h2 where "h2 = length (heap sm)"
  have s0: "eventSource s0 = None" "live s0 = []"
    using sh disconnect_released(1,2) [OF sh, of P]
    by (auto simp: s0_def single_handle_def)
  have c1: "connect P T s = Returns s1"
    using T by (simp add: connect_returns s1_def s0_def Let_def)
  have e1: "eventSource s1 = Some h1" and l1: "live s1 = [h1]"
    using opened_facts(1,2) [OF s0(2), of P T] by (simp_all add: s1_def h1_def)
  have len1: "length (heap s1) = Suc h1"
    by (simp add: s1_def opened_def h1_def)
  have sh1: "single_handle s1"
    using e1 l1 len1 by (simp add: single_handle_def)
  have dm: "disconnect P s1 = Returns sm"
    by (simp add: sm_def disconnect_returns state_of_def)
  have em: "eventSource sm = None" and lm: "live sm = []" and lenm: "length (heap sm) = Suc h1"
    using disconnect_released [OF sh1, of P] len1 by (simp_all add: sm_def)
  have hm: "heap sm = (heap s1)[h1 := (heap s1 ! h1)\<lparr>readyState := 2\<rparr>]"
    using e1 by (simp add: sm_def disconnect_returns state_of_def)
  have closed_m: "readyState (heap sm ! h1) = 2"
    using len1 by (simp add: hm)
  have c2: "connect P T' s1 = Returns s2"
    using T' e1 by (simp add: connect_returns s2_def sm_def Let_def)
  have c2': "connect P T' sm = Returns s2"
    using T' em by (simp add: connect_returns s2_def Let_def)
  have e2: "eventSource s2 = Some h2" and l2: "live s2 = [h2]"
    using opened_facts(1,2) [OF lm, of P T'] by (simp_all add: s2_def h2_def)
  have new: "url (heap s2 ! h2) = stream_url P T'" "closure_token (heap s2 ! h2) = T'"
    using opened_facts(3) [OF lm, of P T'] by (simp_all add: s2_def h2_def)
  have ne: "h1 \<noteq> h2" by (simp add: h2_def lenm)
  have old: "h1 < length (heap s2)" "readyState (heap s2 ! h1) = 2"
    using opened_facts(4) [OF lm, of h1 P T'] closed_m lenm
    by (simp_all add: s2_def opened_def)
  have tr: "trace s2 = trace s1 @ CloseEventSource h1
                # map (\<lambda>f. Called f (JString ''disconnected'')) (connectionListeners s1)
                @ [ConsoleLog ''SSE: Connecting to:'', NewEventSource h2]"
    using e1 by (simp add: s2_def opened_def sm_def disconnect_returns state_of_def h2_def)
  have never: "deliver P h1 ev (exec P as s2) = exec P as s2" for as ev
    using exec_closed_stays [OF old, of P as] by (simp add: deliver_closed)
  show ?thesis
    using c1 e1 l1 dm em lm c2 c2' e2 l2 ne new old tr never by blast
qed

theorem connect_supersedes_witness:
  "single_handle constructor \<and> ''t1'' \<noteq> [] \<and> ''t2'' \<noteq> [] \<and>
   (\<exists>s2. connect P0 ''t2'' (state_of (connect P0 ''t1'' constructor)) = Returns s2
        \<and> eventSource s2 = Some 1 \<and> live s2 = [1] \<and> readyState (heap s2 ! 0) = 2
        \<and> url (heap s2 ! 1) = ''https://api.example.org/api/sse-simple/?token=t2'')"
proof -
  have sh: "single_handle constructor"
    by (simp add: single_handle_def constructor_def live_def)
  have T: "''t1'' \<noteq> []" and T': "''t2'' \<noteq> []" by simp_all
  from connect_supersedes [OF sh T T', of P0]
  obtain s1 sm s2 h1 h2 where
    c1: "connect P0 ''t1'' constructor = Returns s1" and e1: "eventSource s1 = Some h1" and
    c2: "connect P0 ''t2'' s1 = Returns s2" and e2: "eventSource s2 = Some h2" and
    l2: "live s2 = [h2]" and u: "url (heap s2 ! h2) = stream_url P0 ''t2''" and
    cl: "readyState (heap s2 ! h1) = 2"
    by blast
  have h1: "h1 = 0"
    using c1 e1 by (auto simp: connect_returns constructor_def opened_def Let_def)
  have h2: "h2 = 1"
    using c1 c2 e2 e1 h1
    by (auto simp: connect_returns opened_def Let_def disconnect_returns state_of_def constructor_def)
  have su: "stream_url P0 ''t2'' = ''https://api.example.org/api/sse-simple/?token=t2''"
    by (simp add: stream_url_def P0_def encodeURIComponent_def unreserved_def)
  show ?thesis
    using sh c1 c2 e2 l2 u cl h1 h2 su by (simp add: state_of_def)
qed

text \<open>
  C2. For every \<open>n\<close> from 1 to \<open>maxReconnectAttempts\<close>, the call of \<^verbatim>\<open>handleReconnect\<close> that
  schedules the \<open>n\<close>-th retry (the counter being \<open>n - 1\<close> before) sets the counter to \<open>n\<close>,
  one more, and sets one timer, with delay \<open>reconnectDelay * n\<close> and the token it was given.
  A terminal transport error that reaches the policy (auto-reconnect on, and no refresh
  hook or a counter that is not 0) does exactly that. From the constructor, where the
  delay is 1000 and the maximum 5, five calls set the delays 1000, 2000, 3000, 4000, 5000.
\<close>

theorem handleReconnect_linear_backoff:
  assumes "1 \<le> n" and "n \<le> maxReconnectAttempts s" and "reconnectAttempts s = n - 1"
  shows "handleReconnect P token s
           = Returns (s\<lparr>reconnectAttempts := n,
                        timers := timers s @ [(reconnectDelay s * n, token)]\<rparr>)
       \<and> (eventSource s = Some h \<and> readyState (heap s ! h) = 2 \<and> shouldReconnect s
            \<and> (tokenRefreshCallback s = None \<or> 1 < n)
          \<longrightarrow> reconnectAttempts (task (onerror P token s)) = n
            \<and> timers (task (onerror P token s)) = timers s @ [(reconnectDelay s * n, token)])
       \<and> timers (exec P [HandleReconnect token, HandleReconnect token, HandleReconnect token,
                          HandleReconnect token, HandleReconnect token] constructor)
            = [(1000, token), (2000, token), (3000, token), (4000, token), (5000, token)]"
proof -
  from assms have below: "reconnectAttempts s < maxReconnectAttempts s"
    and suc: "Suc (reconnectAttempts s) = n" by simp_all
  have direct: "handleReconnect P token s
           = Returns (s\<lparr>reconnectAttempts := n,
                        timers := timers s @ [(reconnectDelay s * n, token)]\<rparr>)"
    using handleReconnect_below [OF below, of P token] suc by simp
  have via_error: "reconnectAttempts (task (onerror P token s)) = n
            \<and> timers (task (onerror P token s)) = timers s @ [(reconnectDelay s * n, token)]"
    if "eventSource s = Some h" "readyState (heap s ! h) = 2" "shouldReconnect s"
       "tokenRefreshCallback s = None \<or> 1 < n"
  proof -
    from that(4) assms(3) have "tokenRefreshCallback s = None \<or> reconnectAttempts s \<noteq> 0"
      by auto
    from onerror_terminal_no_hook [OF that(1,2,3) this, of P token] below suc
    show ?thesis by (simp add: handleReconnect_below task_def)
  qed
  have five: "timers (exec P [HandleReconnect token, HandleReconnect token, HandleReconnect token,
                          HandleReconnect token, HandleReconnect token] constructor)
            = [(1000, token), (2000, token), (3000, token), (4000, token), (5000, token)]"
    by (simp add: exec_def step_def handleReconnect_def task_def constructor_def Let_def)
  from direct via_error five show ?thesis by blast
qed

theorem handleReconnect_linear_backoff_witness:
  "(1::nat) \<le> 3 \<and> 3 \<le> maxReconnectAttempts sample_retry \<and> reconnectAttempts sample_retry = 3 - 1
   \<and> handleReconnect P0 ''t1'' sample_retry
       = Returns (sample_retry\<lparr>reconnectAttempts := 3,
                     timers := [(1000, ''t1''), (2000, ''t1''), (3000, ''t1'')]\<rparr>)
   \<and> eventSource sample_retry = Some 0 \<and> readyState (heap sample_retry ! 0) = 2
   \<and> shouldReconnect sample_retry \<and> tokenRefreshCallback sample_retry = None
   \<and> reconnectAttempts (task (onerror P0 ''t1'' sample_retry)) = 3
   \<and> timers (task (onerror P0 ''t1'' sample_retry))
       = [(1000, ''t1''), (2000, ''t1''), (3000, ''t1'')]"
proof -
  have a: "(1::nat) \<le> 3" and b: "3 \<le> maxReconnectAttempts sample_retry"
    and c: "reconnectAttempts sample_retry = 3 - 1"
    by (simp_all add: sample_retry_facts)
  have terminal: "eventSource sample_retry = Some 0 \<and> readyState (heap sample_retry ! 0) = 2
      \<and> shouldReconnect sample_retry \<and> (tokenRefreshCallback sample_retry = None \<or> (1::nat) < 3)"
    by (simp add: sample_retry_facts)
  note inst = handleReconnect_linear_backoff [OF a b c, of P0 "''t1''" 0]
  from inst have direct: "handleReconnect P0 ''t1'' sample_retry
           = Returns (sample_retry\<lparr>reconnectAttempts := 3,
                        timers := timers sample_retry @ [(reconnectDelay sample_retry * 3, ''t1'')]\<rparr>)"
    by blast
  from inst terminal have via: "reconnectAttempts (task (onerror P0 ''t1'' sample_retry)) = 3"
    "timers (task (onerror P0 ''t1'' sample_retry))
       = timers sample_retry @ [(reconnectDelay sample_retry * 3, ''t1'')]"
    by blast+
  from a b c direct via show ?thesis
    by (simp add: sample_retry_facts)
qed

text \<open>
  The claim C5 as it is written fails in its clause "exactly once per exhaustion episode":
  \<^verbatim>\<open>handleReconnect\<close> keeps no record of having emitted. In the state below the counter
  is at the maximum; two calls of the policy, with no \<^verbatim>\<open>open\<close> event between them and the
  counter at 5 throughout, call the listener of \<^verbatim>\<open>connection_failed\<close> twice.
\<close>

theorem connection_failed_repeats_counterexample:
  "maxReconnectAttempts sample_exhausted = 5 \<and> reconnectAttempts sample_exhausted = 5
   \<and> count_list (trace sample_exhausted) (Called 3 connection_failed_data) = 0
   \<and> reconnectAttempts (exec P0 [HandleReconnect ''t1''] sample_exhausted) = 5
   \<and> reconnectAttempts (exec P0 [HandleReconnect ''t1'', HandleReconnect ''t1''] sample_exhausted)
       = 5
   \<and> count_list (trace (exec P0 [HandleReconnect ''t1'', HandleReconnect ''t1''] sample_exhausted))
         (Called 3 connection_failed_data) = 2"
proof -
  have full: "maxReconnectAttempts sample_exhausted \<le> reconnectAttempts sample_exhausted"
    by (simp add: sample_exhausted_facts)
  have quiet: "count_list (trace sample_exhausted) (Called 3 connection_failed_data) = 0"
    by (simp add: sample_exhausted_def exec_def step_def handleReconnect_def task_def
          connect_returns opened_def on_def constructor_def Let_def effect_add_def)
  from exec_policy_calls_exhausted [OF full, of P0 "[''t1'']"]
       exec_policy_calls_exhausted [OF full, of P0 "[''t1'', ''t1'']"] quiet
  show ?thesis
    by (simp add: sample_exhausted_facts count_list_app)
qed

text \<open>
  C5, amended. Once the counter has reached \<open>maxReconnectAttempts\<close>, a call of
  \<^verbatim>\<open>handleReconnect\<close> sets no timer and leaves the counter as it is; it emits
  \<^verbatim>\<open>connection_failed\<close>, calling each listener registered for that name once. Every
  further call does the same: a run of calls of the policy emits once for each call. No task
  other than an \<^verbatim>\<open>open\<close> event changes the counter from then on, and an \<^verbatim>\<open>open\<close> event
  of a live handle resets it to 0.
\<close>

theorem handleReconnect_exhausted:
  assumes "maxReconnectAttempts s \<le> reconnectAttempts s"
  shows "handleReconnect P token s
           = Returns (s\<lparr>trace := trace s @ map (\<lambda>f. Called f connection_failed_data)
                                               (registered s ''connection_failed'')\<rparr>)
       \<and> timers (task (handleReconnect P token s)) = timers s
       \<and> reconnectAttempts (task (handleReconnect P token s)) = reconnectAttempts s
       \<and> exec P (map HandleReconnect tokens) s
           = s\<lparr>trace := trace s @ concat (replicate (length tokens)
                                (map (\<lambda>f. Called f connection_failed_data)
                                   (registered s ''connection_failed'')))\<rparr>
       \<and> ((\<forall>a \<in> set as. \<forall>h. a \<noteq> Deliver h Open)
            \<longrightarrow> reconnectAttempts (exec P as s) = reconnectAttempts s)
       \<and> (h < length (heap s) \<and> readyState (heap s ! h) \<noteq> 2
            \<longrightarrow> reconnectAttempts (step P (Deliver h Open) s) = 0)"
proof -
  note emitted = handleReconnect_at_max [OF assms, of P token]
  have "timers (task (handleReconnect P token s)) = timers s"
    and "reconnectAttempts (task (handleReconnect P token s)) = reconnectAttempts s"
    by (simp_all add: emitted task_def)
  with emitted exec_policy_calls_exhausted [OF assms, of P tokens]
       exec_attempts_exhausted [OF assms, of as P] deliver_open_resets [of h s P]
  show ?thesis by blast
qed

theorem handleReconnect_exhausted_witness:
  "maxReconnectAttempts sample_exhausted \<le> reconnectAttempts sample_exhausted
   \<and> trace (task (handleReconnect P0 ''t1'' sample_exhausted))
       = trace sample_exhausted @ [Called 3 connection_failed_data]
   \<and> length (timers (task (handleReconnect P0 ''t1'' sample_exhausted))) = 5
   \<and> trace (exec P0 [HandleReconnect ''t1'', HandleReconnect ''t2'', HandleReconnect ''t1'']
                sample_exhausted)
       = trace sample_exhausted @ [Called 3 connection_failed_data, Called 3 connection_failed_data,
                                   Called 3 connection_failed_data]
   \<and> reconnectAttempts (exec P0 [HandleReconnect ''t1'', Deliver 0 (Error True), Timeout 0]
                           sample_exhausted) = 5
   \<and> reconnectAttempts (step P0 (Deliver 0 Open) sample_exhausted) = 0"
proof -
  have full: "maxReconnectAttempts sample_exhausted \<le> reconnectAttempts sample_exhausted"
    by (simp add: sample_exhausted_facts)
  have others: "\<forall>a \<in> set [HandleReconnect ''t1'', Deliver 0 (Error True), Timeout 0].
                  \<forall>h. a \<noteq> Deliver h Open"
    by simp
  have live0: "0 < length (heap sample_exhausted) \<and> readyState (heap sample_exhausted ! 0) \<noteq> 2"
    by (simp add: sample_exhausted_facts)
  from handleReconnect_exhausted [OF full,
         of P0 "''t1''" "[''t1'', ''t2'', ''t1'']"
            "[HandleReconnect ''t1'', Deliver 0 (Error True), Timeout 0]" 0]
       others live0 full
  show ?thesis by (simp add: task_def sample_exhausted_facts)
qed

text \<open>
  C4. After \<^verbatim>\<open>disconnect()\<close>, whatever tasks run next, auto-reconnect is off; the
  function given to \<^verbatim>\<open>setTimeout\<close> then returns without calling \<^verbatim>\<open>connect\<close>, and a
  pending timer that fires only leaves the list of pending timers.
\<close>

theorem disconnect_suppresses_retry:
  "\<exists>s1. disconnect P s = Returns s1
       \<and> \<not> shouldReconnect (exec P as s1)
       \<and> retry_callback P token (exec P as s1) = Returns (exec P as s1)
       \<and> (i < length (timers (exec P as s1))
            \<longrightarrow> step P (Timeout i) (exec P as s1)
                = (exec P as s1)\<lparr>timers := remove_nth i (timers (exec P as s1))\<rparr>)"
proof -
  define s1 where "s1 = state_of (disconnect P s)"
  have d: "disconnect P s = Returns s1"
    by (simp add: s1_def disconnect_returns state_of_def)
  have "\<not> shouldReconnect s1" by (simp add: s1_def disconnect_flag)
  then have off: "\<not> shouldReconnect (exec P as s1)" by (rule exec_shouldReconnect)
  from d off retry_callback_off [OF off] timeout_off [OF off] show ?thesis by blast
qed

theorem disconnect_suppresses_retry_witness:
  "(\<exists>s1. disconnect P0 sample_pending = Returns s1
        \<and> timers (exec P0 [Connect ''t2''] s1) = [(1000, ''t1'')]
        \<and> step P0 (Timeout 0) (exec P0 [Connect ''t2''] s1)
            = (exec P0 [Connect ''t2''] s1)\<lparr>timers := []\<rparr>)
   \<and> length (heap (step P0 (Timeout 0) sample_pending)) = 2"
proof -
  from disconnect_suppresses_retry [of P0 sample_pending "[Connect ''t2'']" "''t1''" 0]
  obtain s1 where d: "disconnect P0 sample_pending = Returns s1"
    and fire: "0 < length (timers (exec P0 [Connect ''t2''] s1))
            \<longrightarrow> step P0 (Timeout 0) (exec P0 [Connect ''t2''] s1)
                = (exec P0 [Connect ''t2''] s1)
                    \<lparr>timers := remove_nth 0 (timers (exec P0 [Connect ''t2''] s1))\<rparr>"
    by blast
  from d have s1: "s1 = state_of (disconnect P0 sample_pending)"
    by (simp add: state_of_def)
  have t: "timers (exec P0 [Connect ''t2''] s1) = [(1000, ''t1'')]"
    by (simp add: s1 exec_def step_def task_connect connect_returns disconnect_returns state_of_def
          opened_def effect_add_def Let_def task_def sample_pending_facts split: option.splits)
  have unsuppressed: "length (heap (step P0 (Timeout 0) sample_pending)) = 2"
    by (simp add: step_def retry_callback_def task_def connect_returns disconnect_returns
          state_of_def opened_def Let_def sample_pending_facts)
  from d t fire unsuppressed show ?thesis
    by (simp add: remove_nth_def)
qed

text \<open>
  C10. The flag \<open>shouldReconnect\<close> is true in the constructed object and no task sets it
  back to true. \<^verbatim>\<open>disconnect\<close> sets it to false; so does \<^verbatim>\<open>connect\<close> on a session that
  holds a transport handle, and so does a retry timer that fires on such a session. Once it
  is false it stays false, and a terminal transport error then sets no timer, suspends no
  refresh and leaves the counter alone.
\<close>

theorem auto_reconnect_never_reenabled:
  "shouldReconnect constructor
   \<and> (shouldReconnect (step P a s) \<longrightarrow> shouldReconnect s)
   \<and> \<not> shouldReconnect (state_of (disconnect P s))
   \<and> (eventSource s \<noteq> None \<longrightarrow> \<not> shouldReconnect (state_of (connect P token s)))
   \<and> (eventSource s \<noteq> None \<and> i < length (timers s)
        \<longrightarrow> \<not> shouldReconnect (step P (Timeout i) s))
   \<and> (\<not> shouldReconnect s
        \<longrightarrow> \<not> shouldReconnect (exec P as s)
          \<and> timers (deliver P h (Error True) (exec P as s)) = timers (exec P as s)
          \<and> awaiting (deliver P h (Error True) (exec P as s)) = awaiting (exec P as s)
          \<and> reconnectAttempts (deliver P h (Error True) (exec P as s))
              = reconnectAttempts (exec P as s))"
proof -
  have init: "shouldReconnect constructor" by (simp add: constructor_def)
  have mono: "shouldReconnect (step P a s) \<longrightarrow> shouldReconnect s"
    using step_shouldReconnect [of P a s] by blast
  have superseding: "\<not> shouldReconnect (state_of (connect P token s))" if "eventSource s \<noteq> None"
    using that by (simp add: connect_returns disconnect_returns state_of_def opened_def
                     effect_add_def Let_def split: option.splits)
  have retry: "\<not> shouldReconnect (step P (Timeout i) s)"
    if "eventSource s \<noteq> None" "i < length (timers s)"
    using that by (simp add: step_def retry_callback_def task_def connect_returns
                     disconnect_returns state_of_def opened_def effect_add_def Let_def
                     split: option.splits)
  have quiet: "timers (deliver P h (Error True) s') = timers s'
             \<and> awaiting (deliver P h (Error True) s') = awaiting s'
             \<and> reconnectAttempts (deliver P h (Error True) s') = reconnectAttempts s'"
    if "\<not> shouldReconnect s'" for s'
    using that by (simp add: deliver_def onerror_def task_def notify_returns and_then_def
                     effect_add_def set_readyState_def split: option.splits)
  from init mono disconnect_flag [of P s] superseding retry
       exec_shouldReconnect [of s P as] quiet [of "exec P as s"]
  show ?thesis by blast
qed

theorem auto_reconnect_never_reenabled_witness:
  "eventSource sample_pending \<noteq> None \<and> 0 < length (timers sample_pending)
   \<and> shouldReconnect sample_pending
   \<and> shouldReconnect (step P0 (HandleReconnect ''t1'') sample_pending)
   \<and> \<not> shouldReconnect (state_of (connect P0 ''t2'' sample_pending))
   \<and> \<not> shouldReconnect (step P0 (Timeout 0) sample_pending)
   \<and> eventSource (step P0 (Timeout 0) sample_pending) = Some 1
   \<and> timers (deliver P0 1 (Error True) (exec P0 [Deliver 1 Open] (step P0 (Timeout 0) sample_pending)))
       = []
   \<and> reconnectAttempts
        (deliver P0 1 (Error True) (exec P0 [Deliver 1 Open] (step P0 (Timeout 0) sample_pending)))
       = 0"
proof -
  have held: "eventSource sample_pending \<noteq> None \<and> 0 < length (timers sample_pending)"
    by (simp add: sample_pending_facts)
  have still: "shouldReconnect (step P0 (HandleReconnect ''t1'') sample_pending)"
    by (simp add: step_def handleReconnect_def task_def Let_def sample_pending_facts
          sample_pending_policy)
  with auto_reconnect_never_reenabled [of P0 "HandleReconnect ''t1''" sample_pending "''t2''" 0] held
  have was: "shouldReconnect sample_pending"
    and sup: "\<not> shouldReconnect (state_of (connect P0 ''t2'' sample_pending))"
    and off: "\<not> shouldReconnect (step P0 (Timeout 0) sample_pending)"
    by blast+
  from auto_reconnect_never_reenabled
         [of P0 "Timeout 0" "step P0 (Timeout 0) sample_pending" "''t1''" 0 "[Deliver 1 Open]" 1] off
  have quiet: "timers (deliver P0 1 (Error True)
                         (exec P0 [Deliver 1 Open] (step P0 (Timeout 0) sample_pending)))
                 = timers (exec P0 [Deliver 1 Open] (step P0 (Timeout 0) sample_pending))"
    "reconnectAttempts (deliver P0 1 (Error True)
                         (exec P0 [Deliver 1 Open] (step P0 (Timeout 0) sample_pending)))
                 = reconnectAttempts (exec P0 [Deliver 1 Open] (step P0 (Timeout 0) sample_pending))"
    by blast+
  have after: "eventSource (step P0 (Timeout 0) sample_pending) = Some 1"
    "timers (step P0 (Timeout 0) sample_pending) = []"
    "length (heap (step P0 (Timeout 0) sample_pending)) = 2"
    "readyState (heap (step P0 (Timeout 0) sample_pending) ! 1) = 0"
    by (simp_all add: step_def retry_callback_def task_def connect_returns disconnect_returns
          state_of_def opened_def Let_def remove_nth_def nth_append sample_pending_facts)
  define s' where "s' = step P0 (Timeout 0) sample_pending"
  have "timers (exec P0 [Deliver 1 Open] s') = [] \<and> reconnectAttempts (exec P0 [Deliver 1 Open] s') = 0"
    using after [folded s'_def]
    by (simp add: exec_def step_def deliver_def onopen_def emit_returns notify_returns
          and_then_def task_def set_readyState_def)
  then have opened: "timers (exec P0 [Deliver 1 Open] (step P0 (Timeout 0) sample_pending)) = []"
    "reconnectAttempts (exec P0 [Deliver 1 Open] (step P0 (Timeout 0) sample_pending)) = 0"
    by (simp_all add: s'_def)
  from held was still sup off quiet after(1) opened show ?thesis
    by simp
qed



text \<open>
  The claim C7 as it is written fails where a transport handle is held: \<^verbatim>\<open>connect\<close>
  tests \<^verbatim>\<open>this.eventSource\<close> and calls \<^verbatim>\<open>disconnect\<close> before it tests the token.
\<close>

theorem connect_empty_token_counterexample:
  "eventSource sample_connected = Some 0 \<and> isConnected sample_connected
   \<and> shouldReconnect sample_connected \<and> readyState (heap sample_connected ! 0) = 1
   \<and> eventSource (state_of (connect P0 [] sample_connected)) = None
   \<and> \<not> isConnected (state_of (connect P0 [] sample_connected))
   \<and> \<not> shouldReconnect (state_of (connect P0 [] sample_connected))
   \<and> readyState (heap (state_of (connect P0 [] sample_connected)) ! 0) = 2"
  using sample_connected_facts
  by (simp add: connect_returns disconnect_returns state_of_def effect_add_def Let_def)

text \<open>
  C7, amended. In a state that holds no transport handle, \<^verbatim>\<open>connect\<close> with an empty
  token logs the error and changes nothing else. In every state it returns after the log,
  creates no transport handle and leaves \<open>lastToken\<close>, the counter and the pending timers
  as they were.
\<close>

theorem connect_empty_token:
  "(eventSource s = None \<longrightarrow>
      connect P [] s = Returns (s\<lparr>trace := trace s @ [ConsoleError ''SSE: No token provided'']\<rparr>))
   \<and> (\<exists>s'. connect P [] s = Returns s'
            \<and> length (heap s') = length (heap s)
            \<and> lastToken s' = lastToken s
            \<and> reconnectAttempts s' = reconnectAttempts s
            \<and> timers s' = timers s
            \<and> last (trace s') = ConsoleError ''SSE: No token provided'')"
  by (simp add: connect_returns disconnect_returns state_of_def effect_add_def Let_def
        split: option.splits)

theorem connect_empty_token_witness:
  "eventSource constructor = None
   \<and> connect P0 [] constructor
       = Returns (constructor\<lparr>trace := [ConsoleError ''SSE: No token provided'']\<rparr>)
   \<and> (\<exists>s'. connect P0 [] sample_connected = Returns s'
            \<and> length (heap s') = 1 \<and> lastToken s' = Some ''t1'')"
proof -
  have none: "eventSource constructor = None" and empty: "trace constructor = []"
    by (simp_all add: constructor_def)
  from connect_empty_token [of constructor P0] none
  have first: "connect P0 [] constructor
       = Returns (constructor\<lparr>trace := trace constructor @ [ConsoleError ''SSE: No token provided'']\<rparr>)"
    by blast
  from connect_empty_token [of sample_connected P0]
  obtain s' where second: "connect P0 [] sample_connected = Returns s'"
    "length (heap s') = length (heap sample_connected)" "lastToken s' = lastToken sample_connected"
    by blast
  have tok: "lastToken sample_connected = Some ''t1''"
    by (simp add: sample_connected_def exec_def step_def connect_returns
        state_of_def opened_def Let_def deliver_def onopen_def emit_returns notify_returns
        and_then_def task_def set_readyState_def constructor_def registered_def)
  from first second none empty tok show ?thesis
    by (simp add: sample_connected_facts)
qed

text \<open>
  C6. The claim says that a payload that does not parse, on a named event, is swallowed
  inside the session. The listener of a named event calls \<^verbatim>\<open>JSON.parse\<close> outside any
  \<^verbatim>\<open>try\<close>: on the payload \<^verbatim>\<open>{oops\<close> the listener of \<^verbatim>\<open>notification\<close> raises
  SyntaxError, which leaves the session uncaught, while \<^verbatim>\<open>onmessage\<close> on the same
  payload returns. The state is the same after the raise, and the next well-formed
  \<^verbatim>\<open>notification\<close> is parsed and handed to the listener.
\<close>

theorem named_listener_malformed_throws:
  "JSON_parse P0 ''{oops'' = None
   \<and> ''notification'' \<in> set (event_types (heap sample_listening ! 0))
   \<and> named_listener P0 ''notification'' ''{oops'' sample_listening
       = Throws SyntaxError sample_listening
   \<and> deliver P0 0 (Named ''notification'' ''{oops'') sample_listening
       = effect_add (Uncaught SyntaxError) sample_listening
   \<and> onmessage P0 ''{oops'' sample_listening = Returns sample_listening
   \<and> trace (deliver P0 0 (Named ''notification'' ''{}'')
               (deliver P0 0 (Named ''notification'' ''{oops'') sample_listening))
       = trace sample_listening @ [Uncaught SyntaxError, Called 4 (JObject [])]"
proof -
  have bad: "JSON_parse P0 ''{oops'' = None" and good: "JSON_parse P0 ''{}'' = Some (JObject [])"
    by (simp_all add: P0_def)
  have reg: "''notification'' \<in> set (event_types (heap sample_listening ! 0))"
    by (simp add: sample_listening_facts named_events_def)
  have thrown: "named_listener P0 ''notification'' ''{oops'' sample_listening
       = Throws SyntaxError sample_listening"
    using bad by (simp add: named_listener_unparsable)
  have caught: "onmessage P0 ''{oops'' sample_listening = Returns sample_listening"
    using bad by (rule onmessage_unparsable)
  have first: "deliver P0 0 (Named ''notification'' ''{oops'') sample_listening
       = effect_add (Uncaught SyntaxError) sample_listening"
    using reg thrown by (simp add: deliver_def task_def sample_listening_facts)
  have "trace (deliver P0 0 (Named ''notification'' ''{}'')
                 (effect_add (Uncaught SyntaxError) sample_listening))
       = trace sample_listening @ [Uncaught SyntaxError, Called 4 (JObject [])]"
    using reg good sample_listening_facts(4)
    by (simp add: deliver_def task_def named_listener_def emit_returns effect_add_def
          registered_def sample_listening_facts(1,2,3))
  with bad reg thrown caught first show ?thesis by simp
qed

text \<open>
  C8. The claim says that \<^verbatim>\<open>testConnection\<close> resolves with a verdict for every base URL,
  one matching the tunnelling-proxy pattern included. For such a base URL the executor
  assigns to the constant \<^verbatim>\<open>testUrl\<close> and raises TypeError: the promise is rejected, no
  handle is created and no verdict is given. \<^verbatim>\<open>connect\<close> builds the same URL in a
  \<^verbatim>\<open>let\<close> variable and succeeds.
\<close>

theorem testConnection_ngrok_rejects:
  "includes_str (API_BASE_URL P_ngrok) ''ngrok''
   \<and> testConnection P_ngrok ''t1'' = Inl TypeError
   \<and> stream_url P_ngrok ''t1''
       = ''https://abc123.ngrok.io/api/sse-simple/?token=t1&ngrok-skip-browser-warning=true''"
  by (simp add: testConnection_def stream_url_def P_ngrok_def P0_def Let_def
        encodeURIComponent_def unreserved_def)

end
